theory Spec2Isabelle
  imports Complex_Main "HOL-Library.Sublist"
begin

section \<open>Python values, exceptions and the library functions the code calls\<close>

text \<open>
  The provider's payload is whatever \<^verbatim>\<open>response.json()\<close> returns, and the code reads
  it by key, so payloads are values of the JSON shape. A \<^verbatim>\<open>dict\<close> is an association
  list read by its first binding of a key. Python's \<^verbatim>\<open>float\<close> is idealised as
  \<open>real\<close>: rounding error, infinities and NaN are outside the model. A \<^verbatim>\<open>str\<close> is a
  list of characters, each character its code point (\<open>0xED\<close> is the accented i).
\<close>

datatype pyval =
    PNone
  | PBool bool
  | PInt int
  | PFloat real
  | PStr string
  | PList "pyval list"
  | PDict "(string \<times> pyval) list"

text \<open>
  The exception classes that the handlers of the code tell apart. Only
  \<open>RequestException\<close> carries its message, which the retry loop builds itself.
\<close>

datatype pyerr =
    KeyError
  | ValueError
  | TypeError
  | AttributeError
  | IndexError
  | OverflowError
  | RequestException string

text \<open>Sequencing of computations that may raise: the first exception ends the block.\<close>

definition and_then :: "'e + 'a \<Rightarrow> ('a \<Rightarrow> 'e + 'b) \<Rightarrow> 'e + 'b" where
  "and_then m f = (case m of Inl e \<Rightarrow> Inl e | Inr x \<Rightarrow> f x)"

text \<open>What \<^verbatim>\<open>datetime.fromtimestamp(t)\<close> gives and the code reads of it.\<close>

record datetime =
  date_str :: string   \<comment> \<open>\<^verbatim>\<open>dt.strftime("%Y-%m-%d")\<close>\<close>
  hour :: nat          \<comment> \<open>\<^verbatim>\<open>dt.hour\<close>\<close>
  weekday :: nat       \<comment> \<open>\<^verbatim>\<open>dt.weekday()\<close>\<close>

text \<open>
  Functions of Python and of its libraries whose results depend on text parsing, on
  the local time zone or on the library's wording: they are parameters of the model.
\<close>

record pylib =
  float_of_str :: "string \<Rightarrow> real option"      \<comment> \<open>\<^verbatim>\<open>float(s)\<close>, \<open>None\<close> where it raises ValueError\<close>
  int_of_str :: "string \<Rightarrow> int option"         \<comment> \<open>\<^verbatim>\<open>int(s)\<close>, likewise\<close>
  str_of :: "pyval \<Rightarrow> string"                  \<comment> \<open>\<^verbatim>\<open>str(v)\<close> of a value that is not a \<^verbatim>\<open>str\<close>\<close>
  fromtimestamp :: "pyval \<Rightarrow> pyerr + datetime" \<comment> \<open>\<^verbatim>\<open>datetime.fromtimestamp\<close> in the local zone\<close>
  http_error_str :: "nat \<Rightarrow> string"            \<comment> \<open>\<^verbatim>\<open>str(e)\<close> of the HTTPError of a status\<close>

text \<open>
  \<^verbatim>\<open>float(i)\<close> of an \<^verbatim>\<open>int\<close> raises OverflowError when \<open>i\<close> rounds to a magnitude beyond
  the largest double, \<open>2 ^ 1024 - 2 ^ 971\<close>: that is from \<open>2 ^ 1024 - 2 ^ 970\<close> on, the
  midpoint to \<open>2 ^ 1024\<close>, where a tie goes up.
\<close>

definition int_too_large :: "int \<Rightarrow> bool" where
  "int_too_large i = (2 ^ 1024 - 2 ^ 970 \<le> \<bar>i\<bar>)"

fun py_float :: "pylib \<Rightarrow> pyval \<Rightarrow> pyerr + real" where
  "py_float L PNone = Inl TypeError"
| "py_float L (PBool b) = Inr (if b then 1 else 0)"
| "py_float L (PInt i) = (if int_too_large i then Inl OverflowError else Inr (real_of_int i))"
| "py_float L (PFloat r) = Inr r"
| "py_float L (PStr s) = (case float_of_str L s of None \<Rightarrow> Inl ValueError | Some r \<Rightarrow> Inr r)"
| "py_float L (PList xs) = Inl TypeError"
| "py_float L (PDict kvs) = Inl TypeError"

text \<open>\<^verbatim>\<open>int(x)\<close> truncates a float towards zero.\<close>

fun py_int :: "pylib \<Rightarrow> pyval \<Rightarrow> pyerr + int" where
  "py_int L PNone = Inl TypeError"
| "py_int L (PBool b) = Inr (if b then 1 else 0)"
| "py_int L (PInt i) = Inr i"
| "py_int L (PFloat r) = Inr (if 0 \<le> r then \<lfloor>r\<rfloor> else \<lceil>r\<rceil>)"
| "py_int L (PStr s) = (case int_of_str L s of None \<Rightarrow> Inl ValueError | Some i \<Rightarrow> Inr i)"
| "py_int L (PList xs) = Inl TypeError"
| "py_int L (PDict kvs) = Inl TypeError"

fun py_str :: "pylib \<Rightarrow> pyval \<Rightarrow> string" where
  "py_str L (PStr s) = s"
| "py_str L v = str_of L v"

text \<open>Truth value of a value in a condition.\<close>

fun py_truthy :: "pyval \<Rightarrow> bool" where
  "py_truthy PNone = False"
| "py_truthy (PBool b) = b"
| "py_truthy (PInt i) = (i \<noteq> 0)"
| "py_truthy (PFloat r) = (r \<noteq> 0)"
| "py_truthy (PStr s) = (s \<noteq> [])"
| "py_truthy (PList xs) = (xs \<noteq> [])"
| "py_truthy (PDict kvs) = (kvs \<noteq> [])"

text \<open>\<^verbatim>\<open>v[key]\<close> with a string key: only a dict can be read so.\<close>

fun py_getitem :: "pyval \<Rightarrow> string \<Rightarrow> pyerr + pyval" where
  "py_getitem (PDict kvs) k = (case map_of kvs k of None \<Rightarrow> Inl KeyError | Some v \<Rightarrow> Inr v)"
| "py_getitem v k = Inl TypeError"

text \<open>\<^verbatim>\<open>v[0]\<close>: the first element of a list or string; a dict has no key \<open>0\<close>.\<close>

fun py_getitem0 :: "pyval \<Rightarrow> pyerr + pyval" where
  "py_getitem0 (PList []) = Inl IndexError"
| "py_getitem0 (PList (x # xs)) = Inr x"
| "py_getitem0 (PStr []) = Inl IndexError"
| "py_getitem0 (PStr (c # cs)) = Inr (PStr [c])"
| "py_getitem0 (PDict kvs) = Inl KeyError"
| "py_getitem0 v = Inl TypeError"

text \<open>\<^verbatim>\<open>v.get(key, default)\<close>: a method of dicts only.\<close>

fun py_get :: "pyval \<Rightarrow> string \<Rightarrow> pyval \<Rightarrow> pyerr + pyval" where
  "py_get (PDict kvs) k d = Inr (case map_of kvs k of None \<Rightarrow> d | Some v \<Rightarrow> v)"
| "py_get v k d = Inl AttributeError"

text \<open>\<^verbatim>\<open>key in v\<close>: a key of a dict, an element of a list, a substring of a string.\<close>

fun py_contains :: "string \<Rightarrow> pyval \<Rightarrow> pyerr + bool" where
  "py_contains k (PDict kvs) = Inr (k \<in> fst ` set kvs)"
| "py_contains k (PList xs) = Inr (PStr k \<in> set xs)"
| "py_contains k (PStr s) = Inr (sublist k s)"
| "py_contains k v = Inl TypeError"

text \<open>\<^verbatim>\<open>for item in v\<close>: a dict is iterated by its keys, a string by its characters.\<close>

fun py_iter :: "pyval \<Rightarrow> pyerr + pyval list" where
  "py_iter (PList xs) = Inr xs"
| "py_iter (PDict kvs) = Inr (map PStr (remdups (map fst kvs)))"
| "py_iter (PStr s) = Inr (map (\<lambda>c. PStr [c]) s)"
| "py_iter v = Inl TypeError"

text \<open>
  \<^verbatim>\<open>round(x, 1)\<close>: to the nearest tenth, a tie going to the even tenth.
\<close>

definition round_half_even :: "real \<Rightarrow> int" where
  "round_half_even x =
     (let f = \<lfloor>x\<rfloor>; d = x - of_int f
      in if d < 1 / 2 then f else if 1 / 2 < d then f + 1 else if even f then f else f + 1)"

definition py_round1 :: "real \<Rightarrow> real" where
  "py_round1 x = of_int (round_half_even (x * 10)) / 10"

section \<open>weather\_predictions.py: categories, crop risk, trend\<close>

text \<open>
  The helpers below are annotated \<^verbatim>\<open>float\<close> in the source and are called with
  floats only, on which \<^verbatim>\<open>float(temp)\<close> is the identity; their handlers, which
  answer \<^verbatim>\<open>"no disponible"\<close> to an argument that is not a number, are therefore not
  branches of a function on \<open>real\<close>.
\<close>

definition categorizar_temperatura :: "real \<Rightarrow> string" where
  "categorizar_temperatura temp =
     (if temp < 15 then ''fr'' @ [CHR 0xED] @ ''a''
      else if temp < 25 then ''moderada''
      else ''caliente'')"

definition categorizar_humedad :: "real \<Rightarrow> string" where
  "categorizar_humedad hum =
     (if hum < 40 then ''baja''
      else if hum < 70 then ''moderada''
      else ''alta'')"

definition categorizar_viento :: "real \<Rightarrow> string" where
  "categorizar_viento viento =
     (if viento < 10 then ''suave''
      else if viento < 20 then ''moderado''
      else ''fuerte'')"

record riesgo =
  nivel :: string
  factores :: "string list"
  valor :: int

text \<open>The three evaluations update the pair (\<^verbatim>\<open>riesgo\<close>, \<^verbatim>\<open>factores\<close>) in turn.\<close>

definition riesgo_temperatura :: "real \<Rightarrow> int \<times> string list \<Rightarrow> int \<times> string list" where
  "riesgo_temperatura temp = (\<lambda>(riesgo, factores).
     if 30 < temp then (riesgo + 2, factores @ [''temperatura alta''])
     else if temp < 10 then (riesgo + 2, factores @ [''temperatura baja''])
     else (riesgo, factores))"

definition riesgo_humedad :: "real \<Rightarrow> int \<times> string list \<Rightarrow> int \<times> string list" where
  "riesgo_humedad hum = (\<lambda>(riesgo, factores).
     if 80 < hum then (riesgo + 2, factores @ [''humedad alta''])
     else if hum < 30 then (riesgo + 1, factores @ [''humedad baja''])
     else (riesgo, factores))"

definition riesgo_viento :: "real \<Rightarrow> int \<times> string list \<Rightarrow> int \<times> string list" where
  "riesgo_viento viento = (\<lambda>(riesgo, factores).
     if 25 < viento then (riesgo + 2, factores @ [''viento fuerte''])
     else (riesgo, factores))"

definition nivel_riesgo :: "int \<Rightarrow> string" where
  "nivel_riesgo riesgo = (if riesgo \<le> 1 then ''bajo'' else if riesgo \<le> 3 then ''medio'' else ''alto'')"

definition evaluar_riesgo_cultivo :: "real \<Rightarrow> real \<Rightarrow> real \<Rightarrow> riesgo" where
  "evaluar_riesgo_cultivo temp hum viento =
     (let (riesgo, factores) =
        riesgo_viento viento (riesgo_humedad hum (riesgo_temperatura temp (0, [])))
      in \<lparr> nivel = nivel_riesgo riesgo, factores = factores, valor = riesgo \<rparr>)"

definition interpretar_tendencia :: "real \<Rightarrow> string" where
  "interpretar_tendencia tendencia =
     (if \<bar>tendencia\<bar> < 0.1 then ''estable''
      else if 0 < tendencia then ''aumentando''
      else ''disminuyendo'')"

text \<open>
  \<^verbatim>\<open>LinearRegression().fit(X, y).coef_[0]\<close> of scikit-learn, with \<^verbatim>\<open>X\<close> the indices
  \<open>0 .. n - 1\<close>: the slope of the least-squares line with intercept, the covariance
  of index and value over the variance of the index.
\<close>

definition linear_regression_coef :: "real list \<Rightarrow> real" where
  "linear_regression_coef y =
     (let n = length y;
          X = map real [0..<n];
          xm = sum_list X / real n;
          ym = sum_list y / real n
      in (\<Sum>(x, v) \<leftarrow> zip X y. (x - xm) * (v - ym)) / (\<Sum>x \<leftarrow> X. (x - xm) ^ 2))"

text \<open>
  The points kept by \<^verbatim>\<open>x is not None and isinstance(x, (int, float))\<close>; a \<^verbatim>\<open>bool\<close> is
  an \<^verbatim>\<open>int\<close> in Python.
\<close>

fun es_numero :: "pyval \<Rightarrow> bool" where
  "es_numero (PBool b) = True"
| "es_numero (PInt i) = True"
| "es_numero (PFloat r) = True"
| "es_numero v = False"

text \<open>\<^verbatim>\<open>float(x)\<close> of a point that is kept.\<close>

fun a_float :: "pyval \<Rightarrow> pyerr + real" where
  "a_float (PBool b) = Inr (if b then 1 else 0)"
| "a_float (PInt i) = (if int_too_large i then Inl OverflowError else Inr (real_of_int i))"
| "a_float (PFloat r) = Inr r"
| "a_float v = Inl TypeError"

text \<open>The list comprehension: it raises when a conversion does.\<close>

fun datos_limpios :: "pyval list \<Rightarrow> pyerr + real list" where
  "datos_limpios [] = Inr []"
| "datos_limpios (x # xs) =
     (if es_numero x
      then and_then (a_float x) (\<lambda>r. and_then (datos_limpios xs) (\<lambda>rs. Inr (r # rs)))
      else datos_limpios xs)"

text \<open>
  Every path of \<^verbatim>\<open>_calcular_tendencia\<close> returns a float: its two handlers return
  \<open>0.0\<close> for any exception, here the one of a conversion; on reals the fit raises none.
\<close>

definition calcular_tendencia :: "pyval list \<Rightarrow> real" where
  "calcular_tendencia datos_historicos =
     (if datos_historicos = [] \<or> length datos_historicos < 2 then 0
      else
        (case datos_limpios datos_historicos of
           Inl e \<Rightarrow> 0
         | Inr limpios \<Rightarrow>
             if length limpios < 2 then 0 else linear_regression_coef limpios))"

section \<open>weather\_service.py: the upstream client\<close>

text \<open>
  What one \<^verbatim>\<open>requests.get(url, params, timeout=10, verify=True)\<close> can do: raise
  \<^verbatim>\<open>Timeout\<close>, raise another \<^verbatim>\<open>RequestException\<close> (with that text), or return a
  response with a status code and a body, taken to be well-formed JSON.
\<close>

datatype http_outcome =
    Timeout
  | ConnFail string
  | Response nat pyval

definition max_retries :: nat where
  "max_retries = 3"

text \<open>
  \<^verbatim>\<open>response.raise_for_status()\<close> raises \<^verbatim>\<open>HTTPError\<close> for a status from 400 to 599;
  \<^verbatim>\<open>HTTPError\<close>, like \<^verbatim>\<open>Timeout\<close>, is a subclass of \<^verbatim>\<open>RequestException\<close>.
\<close>

definition raise_for_status :: "nat \<Rightarrow> bool" where
  "raise_for_status status = (400 \<le> status \<and> status < 600)"

text \<open>
  The loop of \<^verbatim>\<open>_make_request\<close>. \<open>net k\<close> is the outcome of the \<open>k\<close>-th
  \<^verbatim>\<open>requests.get\<close> of this call, counted from 0. The result comes with the number of
  requests made and the number of \<^verbatim>\<open>time.sleep(self.retry_delay)\<close> calls.
\<close>

function make_request_loop ::
  "pylib \<Rightarrow> (nat \<Rightarrow> http_outcome) \<Rightarrow> nat \<Rightarrow> string \<Rightarrow> nat \<Rightarrow> (pyerr + pyval) \<times> nat \<times> nat" where
  "make_request_loop L net attempts last_error sleeps =
     (if attempts < max_retries then
        (case net attempts of
           Response status body \<Rightarrow>
             if raise_for_status status then
               make_request_loop L net (attempts + 1) (http_error_str L status)
                 (if attempts + 1 < max_retries then sleeps + 1 else sleeps)
             else (Inr body, attempts + 1, sleeps)
         | Timeout \<Rightarrow>
             make_request_loop L net (attempts + 1) ''Timeout al conectar con el servicio''
               (if attempts + 1 < max_retries then sleeps + 1 else sleeps)
         | ConnFail msg \<Rightarrow>
             make_request_loop L net (attempts + 1) msg
               (if attempts + 1 < max_retries then sleeps + 1 else sleeps))
      else (Inl (RequestException (''Error despu'' @ [CHR 0xE9] @ ''s de 3 intentos: '' @ last_error)),
            attempts, sleeps))"
  by pat_completeness auto
termination
  by (relation "measure (\<lambda>(L, net, attempts, last_error, sleeps). max_retries - attempts)") auto

declare make_request_loop.simps [simp del]

text \<open>\<^verbatim>\<open>last_error\<close> starts as \<^verbatim>\<open>None\<close>, which is never printed: 3 attempts are made.\<close>

definition make_request :: "pylib \<Rightarrow> (nat \<Rightarrow> http_outcome) \<Rightarrow> (pyerr + pyval) \<times> nat \<times> nat" where
  "make_request L net = make_request_loop L net 0 ''None'' 0"

text \<open>\<^verbatim>\<open>all(key in v for key in keys)\<close>, stopping at the first key that is missing.\<close>

fun all_in :: "string list \<Rightarrow> pyval \<Rightarrow> pyerr + bool" where
  "all_in [] v = Inr True"
| "all_in (k # ks) v = and_then (py_contains k v) (\<lambda>b. if b then all_in ks v else Inr False)"

text \<open>The field expressions that both normalisations share.\<close>

definition campo_temperatura :: "pylib \<Rightarrow> pyval \<Rightarrow> pyerr + pyval" where
  \<comment> \<open>\<^verbatim>\<open>round(float(item["main"]["temp"]), 1)\<close>\<close>
  "campo_temperatura L item =
     and_then (py_getitem item ''main'') (\<lambda>m.
     and_then (py_getitem m ''temp'') (\<lambda>t.
     and_then (py_float L t) (\<lambda>r. Inr (PFloat (py_round1 r)))))"

definition campo_humedad :: "pylib \<Rightarrow> pyval \<Rightarrow> pyerr + pyval" where
  \<comment> \<open>\<^verbatim>\<open>int(item["main"]["humidity"])\<close>\<close>
  "campo_humedad L item =
     and_then (py_getitem item ''main'') (\<lambda>m.
     and_then (py_getitem m ''humidity'') (\<lambda>h.
     and_then (py_int L h) (\<lambda>i. Inr (PInt i))))"

definition campo_viento :: "pylib \<Rightarrow> pyval \<Rightarrow> pyerr + pyval" where
  \<comment> \<open>\<^verbatim>\<open>round(float(item["wind"].get("speed", 0)) * 3.6, 1)\<close>\<close>
  "campo_viento L item =
     and_then (py_getitem item ''wind'') (\<lambda>w.
     and_then (py_get w ''speed'' (PInt 0)) (\<lambda>s.
     and_then (py_float L s) (\<lambda>r. Inr (PFloat (py_round1 (r * 3.6))))))"

definition campo_lluvia :: "pylib \<Rightarrow> string \<Rightarrow> pyval \<Rightarrow> pyerr + real" where
  \<comment> \<open>\<^verbatim>\<open>float(item.get("rain", {}).get(key, 0))\<close>\<close>
  "campo_lluvia L key item =
     and_then (py_get item ''rain'' (PDict [])) (\<lambda>rain.
     and_then (py_get rain key (PInt 0)) (\<lambda>v. py_float L v))"

definition campo_condicion :: "pylib \<Rightarrow> pyval \<Rightarrow> pyerr + pyval" where
  \<comment> \<open>\<^verbatim>\<open>str(item["weather"][0]["description"]) if item.get("weather") else "desconocido"\<close>\<close>
  "campo_condicion L item =
     and_then (py_get item ''weather'' PNone) (\<lambda>c.
     if py_truthy c then
       and_then (py_getitem item ''weather'') (\<lambda>ws.
       and_then (py_getitem0 ws) (\<lambda>w.
       and_then (py_getitem w ''description'') (\<lambda>d. Inr (PStr (py_str L d)))))
     else Inr (PStr ''desconocido''))"

definition campo_condicion_id :: "pylib \<Rightarrow> pyval \<Rightarrow> pyerr + pyval" where
  \<comment> \<open>\<^verbatim>\<open>int(item["weather"][0]["id"]) if item.get("weather") else 800\<close>\<close>
  "campo_condicion_id L item =
     and_then (py_get item ''weather'' PNone) (\<lambda>c.
     if py_truthy c then
       and_then (py_getitem item ''weather'') (\<lambda>ws.
       and_then (py_getitem0 ws) (\<lambda>w.
       and_then (py_getitem w ''id'') (\<lambda>i.
       and_then (py_int L i) (\<lambda>n. Inr (PInt n)))))
     else Inr (PInt 800))"

text \<open>
  The body of the \<^verbatim>\<open>try\<close> of \<^verbatim>\<open>get_current_weather\<close> after the request: the check
  of the required keys, then the fields in the order the dict literal evaluates them.
  \<open>now\<close> is \<^verbatim>\<open>datetime.now().isoformat()\<close>.
\<close>

definition normalizar_clima :: "pylib \<Rightarrow> string \<Rightarrow> pyval \<Rightarrow> pyerr + pyval" where
  "normalizar_clima L now data =
     and_then (py_get data ''main'' (PDict [])) (\<lambda>main.
     and_then (all_in [''temp'', ''humidity''] main) (\<lambda>completo.
     if \<not> completo then Inl ValueError
     else
       and_then (campo_temperatura L data) (\<lambda>temperatura.
       and_then (campo_humedad L data) (\<lambda>humedad.
       and_then (campo_viento L data) (\<lambda>viento.
       and_then (campo_lluvia L ''1h'' data) (\<lambda>lluvia.
       and_then (campo_condicion L data) (\<lambda>condicion.
       and_then (campo_condicion_id L data) (\<lambda>condicion_id.
       Inr (PDict [(''temperatura'', temperatura),
                   (''humedad'', humedad),
                   (''viento'', viento),
                   (''lluvia'', PFloat lluvia),
                   (''condicion'', condicion),
                   (''condicion_id'', condicion_id),
                   (''timestamp'', PStr now)])))))))))"

text \<open>
  The handlers of \<^verbatim>\<open>get_current_weather\<close>: a KeyError, ValueError or TypeError is
  raised again as a ValueError, any other exception as it is.
\<close>

definition error_clima :: "pyerr \<Rightarrow> pyerr" where
  "error_clima e = (if e = KeyError \<or> e = ValueError \<or> e = TypeError then ValueError else e)"

text \<open>
  \<open>net endpoint (lat, lon)\<close> is the provider seen from this process: the outcomes of
  the successive requests to that endpoint with those coordinates.
\<close>

type_synonym network = "string \<Rightarrow> real \<times> real \<Rightarrow> nat \<Rightarrow> http_outcome"

definition get_current_weather :: "pylib \<Rightarrow> network \<Rightarrow> string \<Rightarrow> real \<Rightarrow> real \<Rightarrow> pyerr + pyval" where
  "get_current_weather L net now lat lon =
     (case and_then (fst (make_request L (net ''weather'' (lat, lon)))) (normalizar_clima L now) of
        Inl e \<Rightarrow> Inl (error_clima e)
      | Inr clima \<Rightarrow> Inr clima)"

definition get_day_name :: "nat \<Rightarrow> string" where
  "get_day_name wd =
     (case map_of [(0, ''Lunes''), (1, ''Martes''), (2, ''Mi'' @ [CHR 0xE9] @ ''rcoles''),
                   (3, ''Jueves''), (4, ''Viernes''), (5, ''S'' @ [CHR 0xE1] @ ''bado''),
                   (6, ''Domingo'')] wd of
        None \<Rightarrow> ''Desconocido'' | Some d \<Rightarrow> d)"

text \<open>The dict built for a sample that is taken, fields in the order of the literal.\<close>

definition forecast_entry :: "pylib \<Rightarrow> pyval \<Rightarrow> datetime \<Rightarrow> pyerr + pyval" where
  "forecast_entry L item dt =
     and_then (campo_temperatura L item) (\<lambda>temperatura.
     and_then (campo_humedad L item) (\<lambda>humedad.
     and_then (campo_viento L item) (\<lambda>viento.
     and_then (campo_lluvia L ''3h'' item) (\<lambda>lluvia.
     and_then (campo_condicion L item) (\<lambda>condicion.
     and_then (campo_condicion_id L item) (\<lambda>condicion_id.
     Inr (PDict [(''fecha'', PStr (date_str dt)),
                 (''dia'', PStr (get_day_name (weekday dt))),
                 (''temperatura'', temperatura),
                 (''humedad'', humedad),
                 (''viento'', viento),
                 (''lluvia'', PFloat (lluvia / 3)),
                 (''condicion'', condicion),
                 (''condicion_id'', condicion_id)])))))))"

text \<open>The exceptions that the \<^verbatim>\<open>except\<close> inside the loop turns into \<^verbatim>\<open>continue\<close>.\<close>

definition se_omite :: "pyerr \<Rightarrow> bool" where
  "se_omite e = (e = KeyError \<or> e = ValueError \<or> e = TypeError)"

text \<open>\<^verbatim>\<open>datetime.fromtimestamp(item["dt"])\<close>.\<close>

definition sample_time :: "pylib \<Rightarrow> pyval \<Rightarrow> pyerr + datetime" where
  "sample_time L item = and_then (py_getitem item ''dt'') (fromtimestamp L)"

text \<open>
  The loop over \<^verbatim>\<open>data["list"]\<close>, with \<^verbatim>\<open>daily_forecasts\<close> and \<^verbatim>\<open>seen_dates\<close> as
  its state. The date is added to \<^verbatim>\<open>seen_dates\<close> before the entry is built, so it
  stays there when building the entry raises.
\<close>

fun forecast_loop :: "pylib \<Rightarrow> pyval list \<Rightarrow> pyval list \<Rightarrow> string set \<Rightarrow> pyerr + pyval list" where
  "forecast_loop L [] daily_forecasts seen_dates = Inr daily_forecasts"
| "forecast_loop L (item # rest) daily_forecasts seen_dates =
     (case sample_time L item of
        Inl e \<Rightarrow> if se_omite e then forecast_loop L rest daily_forecasts seen_dates else Inl e
      | Inr dt \<Rightarrow>
          if hour dt \<in> {11, 12, 13} \<and> date_str dt \<notin> seen_dates then
            (case forecast_entry L item dt of
               Inl e \<Rightarrow>
                 if se_omite e
                 then forecast_loop L rest daily_forecasts (insert (date_str dt) seen_dates)
                 else Inl e
             | Inr forecast \<Rightarrow>
                 if length (daily_forecasts @ [forecast]) \<ge> 5
                 then Inr (daily_forecasts @ [forecast])
                 else forecast_loop L rest (daily_forecasts @ [forecast])
                        (insert (date_str dt) seen_dates))
          else forecast_loop L rest daily_forecasts seen_dates)"

text \<open>The body of \<^verbatim>\<open>get_forecast\<close> after the request, down to the list of entries.\<close>

definition daily_forecasts_of :: "pylib \<Rightarrow> pyval \<Rightarrow> pyerr + pyval list" where
  "daily_forecasts_of L data =
     and_then (py_contains ''list'' data) (\<lambda>present.
     if \<not> present then Inl ValueError
     else
       and_then (py_getitem data ''list'') (\<lambda>l.
       if \<not> py_truthy l then Inl ValueError
       else
         and_then (py_iter l) (\<lambda>items.
         and_then (forecast_loop L items [] {}) (\<lambda>daily_forecasts.
         if daily_forecasts = [] then Inl ValueError else Inr daily_forecasts))))"

text \<open>\<^verbatim>\<open>get_forecast\<close>: its handler logs and raises the same exception again.\<close>

definition get_forecast :: "pylib \<Rightarrow> network \<Rightarrow> real \<Rightarrow> real \<Rightarrow> pyerr + pyval" where
  "get_forecast L net lat lon =
     and_then (fst (make_request L (net ''forecast'' (lat, lon)))) (\<lambda>data.
     and_then (daily_forecasts_of L data) (\<lambda>daily_forecasts.
     Inr (PDict [(''pronostico'', PList daily_forecasts)])))"

section \<open>weather\_predictions.py: the weekly analysis\<close>

record condicion =
  cond_valor :: real          \<comment> \<open>key \<^verbatim>\<open>"valor"\<close>\<close>
  cond_categoria :: string    \<comment> \<open>key \<^verbatim>\<open>"categoria"\<close>\<close>

record condiciones =
  temperatura :: condicion
  humedad :: condicion
  viento :: condicion

record patron_diario =
  dia :: string
  fecha :: string
  condiciones :: condiciones
  riesgo_cultivo :: riesgo

record recomendacion =
  rec_tipo :: string          \<comment> \<open>key \<^verbatim>\<open>"tipo"\<close>\<close>
  rec_mensaje :: string       \<comment> \<open>key \<^verbatim>\<open>"mensaje"\<close>\<close>

record alerta =
  alerta_tipo :: string       \<comment> \<open>key \<^verbatim>\<open>"tipo"\<close>\<close>
  alerta_nivel :: string      \<comment> \<open>key \<^verbatim>\<open>"nivel"\<close>\<close>
  alerta_mensaje :: string    \<comment> \<open>key \<^verbatim>\<open>"mensaje"\<close>\<close>

record resumen_semanal =
  temperatura_promedio :: real
  humedad_promedio :: real
  viento_promedio :: real
  tendencia_temperatura :: string   \<comment> \<open>\<^verbatim>\<open>["tendencias"]["temperatura"]\<close>\<close>
  tendencia_humedad :: string       \<comment> \<open>\<^verbatim>\<open>["tendencias"]["humedad"]\<close>\<close>

text \<open>\<^verbatim>\<open>analisis_semanal\<close> as initialised, and with the key \<^verbatim>\<open>"resumen"\<close> added at the end.\<close>

record analisis_semanal =
  patrones_diarios :: "patron_diario list"
  recomendaciones :: "recomendacion list"
  alertas :: "alerta list"

record analisis_completo = analisis_semanal +
  resumen :: resumen_semanal

text \<open>The three lists of the loop and \<^verbatim>\<open>analisis_semanal["patrones_diarios"]\<close>.\<close>

record acumulado =
  temperaturas :: "real list"
  humedades :: "real list"
  vientos :: "real list"
  patrones :: "patron_diario list"

text \<open>\<^verbatim>\<open>float(dia.get(key, 0))\<close>.\<close>

definition leer_campo :: "pylib \<Rightarrow> pyval \<Rightarrow> string \<Rightarrow> pyerr + real" where
  "leer_campo L d key = and_then (py_get d key (PInt 0)) (py_float L)"

text \<open>The three conversions that open the \<^verbatim>\<open>try\<close> of the loop body.\<close>

definition leer_dia :: "pylib \<Rightarrow> pyval \<Rightarrow> pyerr + real \<times> real \<times> real" where
  "leer_dia L d =
     and_then (leer_campo L d ''temperatura'') (\<lambda>temp.
     and_then (leer_campo L d ''humedad'') (\<lambda>hum.
     and_then (leer_campo L d ''viento'') (\<lambda>vnt.
     Inr (temp, hum, vnt))))"

text \<open>The dict \<^verbatim>\<open>patron_diario\<close>, built after the three appends.\<close>

definition patron_de :: "pylib \<Rightarrow> pyval \<Rightarrow> real \<Rightarrow> real \<Rightarrow> real \<Rightarrow> pyerr + patron_diario" where
  "patron_de L d temp hum vnt =
     and_then (py_get d ''dia'' (PStr [])) (\<lambda>nombre.
     and_then (py_get d ''fecha'' (PStr [])) (\<lambda>f.
     Inr \<lparr> dia = py_str L nombre,
           fecha = py_str L f,
           condiciones =
             \<lparr> temperatura = \<lparr> cond_valor = temp, cond_categoria = categorizar_temperatura temp \<rparr>,
               humedad = \<lparr> cond_valor = hum, cond_categoria = categorizar_humedad hum \<rparr>,
               viento = \<lparr> cond_valor = vnt, cond_categoria = categorizar_viento vnt \<rparr> \<rparr>,
           riesgo_cultivo = evaluar_riesgo_cultivo temp hum vnt \<rparr>))"

text \<open>The exceptions after which the loop over the days goes on to the next day.\<close>

definition dia_omitido :: "pyerr \<Rightarrow> bool" where
  "dia_omitido e = (e = ValueError \<or> e = TypeError)"

text \<open>
  The loop \<^verbatim>\<open>for dia in datos_diarios\<close>. The three lists are extended before the
  pattern record is built, and an exception of the body leaves the state as it is at
  that point.
\<close>

fun procesar_dias :: "pylib \<Rightarrow> pyval list \<Rightarrow> acumulado \<Rightarrow> pyerr + acumulado" where
  "procesar_dias L [] ac = Inr ac"
| "procesar_dias L (d # ds) ac =
     (case leer_dia L d of
        Inl e \<Rightarrow> if dia_omitido e then procesar_dias L ds ac else Inl e
      | Inr (temp, hum, vnt) \<Rightarrow>
          (let ac1 = ac\<lparr> temperaturas := temperaturas ac @ [temp],
                         humedades := humedades ac @ [hum],
                         vientos := vientos ac @ [vnt] \<rparr>
           in case patron_de L d temp hum vnt of
                Inl e \<Rightarrow> if dia_omitido e then procesar_dias L ds ac1 else Inl e
              | Inr p \<Rightarrow> procesar_dias L ds (ac1\<lparr> patrones := patrones ac1 @ [p] \<rparr>)))"

definition recomendacion_riego :: recomendacion where
  "recomendacion_riego =
     \<lparr> rec_tipo = ''riego'',
       rec_mensaje = ''Aumentar frecuencia de riego por tendencia al alza en temperaturas'' \<rparr>"

definition alerta_hongos :: alerta where
  "alerta_hongos =
     \<lparr> alerta_tipo = ''hongos'',
       alerta_nivel = ''precauci'' @ [CHR 0xF3] @ ''n'',
       alerta_mensaje = ''Riesgo de desarrollo de hongos por alta humedad'' \<rparr>"

definition alerta_viento :: alerta where
  "alerta_viento =
     \<lparr> alerta_tipo = ''viento'',
       alerta_nivel = ''advertencia'',
       alerta_mensaje = ''Vientos fuertes pueden afectar los cultivos'' \<rparr>"

text \<open>
  \<^verbatim>\<open>_generar_recomendaciones\<close> changes \<^verbatim>\<open>analisis\<close> in place; here it returns it.
  Nothing in its body raises on lists of reals.
\<close>

definition generar_recomendaciones ::
  "analisis_semanal \<Rightarrow> real list \<Rightarrow> real list \<Rightarrow> real list \<Rightarrow> analisis_semanal" where
  "generar_recomendaciones analisis temps hums vnts =
     (let tendencia_temp = calcular_tendencia (map PFloat temps);
          a1 = (if 0.5 < tendencia_temp
                then analisis\<lparr> recomendaciones := recomendaciones analisis @ [recomendacion_riego] \<rparr>
                else analisis);
          a2 = (if list_ex (\<lambda>h. 80 < h) hums
                then a1\<lparr> alertas := alertas a1 @ [alerta_hongos] \<rparr>
                else a1);
          a3 = (if list_ex (\<lambda>v. 30 < v) vnts
                then a2\<lparr> alertas := alertas a2 @ [alerta_viento] \<rparr>
                else a2)
      in a3)"

text \<open>\<^verbatim>\<open>round(sum(xs) / len(xs), 1) if xs else 0\<close>.\<close>

definition promedio :: "real list \<Rightarrow> real" where
  "promedio xs = (if xs \<noteq> [] then py_round1 (sum_list xs / real (length xs)) else 0)"

definition generar_resumen :: "real list \<Rightarrow> real list \<Rightarrow> real list \<Rightarrow> real \<Rightarrow> real \<Rightarrow> resumen_semanal" where
  "generar_resumen temps hums vnts tendencia_temp tendencia_hum =
     \<lparr> temperatura_promedio = promedio temps,
       humedad_promedio = promedio hums,
       viento_promedio = promedio vnts,
       tendencia_temperatura = interpretar_tendencia tendencia_temp,
       tendencia_humedad = interpretar_tendencia tendencia_hum \<rparr>"

text \<open>
  \<^verbatim>\<open>analizar_patron_semanal\<close> up to the end of the loop over the days: the check of
  the coordinates, the forecast, and the days processed.
\<close>

definition dias_procesados :: "pylib \<Rightarrow> network \<Rightarrow> real \<Rightarrow> real \<Rightarrow> pyerr + acumulado" where
  "dias_procesados L net lat lon =
     (if \<not> (- 90 \<le> lat \<and> lat \<le> 90) \<or> \<not> (- 180 \<le> lon \<and> lon \<le> 180) then Inl ValueError
      else
        and_then (get_forecast L net lat lon) (\<lambda>pronostico.
        and_then (py_get pronostico ''pronostico'' (PList [])) (\<lambda>datos_diarios.
        if \<not> py_truthy datos_diarios then Inl ValueError
        else
          and_then (py_iter datos_diarios) (\<lambda>dias.
          procesar_dias L dias
            \<lparr> temperaturas = [], humedades = [], vientos = [], patrones = [] \<rparr>))))"

text \<open>The rest of it; its handler logs and raises the same exception again.\<close>

definition analizar_patron_semanal :: "pylib \<Rightarrow> network \<Rightarrow> real \<Rightarrow> real \<Rightarrow> pyerr + analisis_completo" where
  "analizar_patron_semanal L net lat lon =
     and_then (dias_procesados L net lat lon) (\<lambda>ac.
     if patrones ac = [] then Inl ValueError
     else
       (let tendencia_temp = calcular_tendencia (map PFloat (temperaturas ac));
            tendencia_hum = calcular_tendencia (map PFloat (humedades ac));
            analisis = generar_recomendaciones
                         \<lparr> patrones_diarios = patrones ac, recomendaciones = [], alertas = [] \<rparr>
                         (temperaturas ac) (humedades ac) (vientos ac)
        in Inr \<lparr> patrones_diarios = patrones_diarios analisis,
                 recomendaciones = recomendaciones analisis,
                 alertas = alertas analisis,
                 resumen = generar_resumen (temperaturas ac) (humedades ac) (vientos ac)
                             tendencia_temp tendencia_hum \<rparr>))"

section \<open>Terms of the statements and example inputs\<close>


text \<open>A library for the examples: no string parses as a number, no value is a time.\<close>

definition lib_ejemplo :: pylib where
  "lib_ejemplo =
     \<lparr> float_of_str = (\<lambda>s. None),
       int_of_str = (\<lambda>s. None),
       str_of = (\<lambda>v. ''?''),
       fromtimestamp = (\<lambda>v. Inl TypeError),
       http_error_str = (\<lambda>status. ''HTTP error'') \<rparr>"


text \<open>A provider that answers every request with status 200 and the same payload.\<close>

definition respuesta_clima :: "pyval \<Rightarrow> network" where
  "respuesta_clima payload = (\<lambda>endpoint coords k. Response 200 payload)"

definition clima_minimo :: pyval where
  "clima_minimo =
     PDict [(''main'', PDict [(''temp'', PFloat 21.34), (''humidity'', PInt 60)]),
            (''wind'', PDict [])]"

definition clima_nublado :: pyval where
  "clima_nublado =
     PDict [(''main'', PDict [(''temp'', PFloat 21.34), (''humidity'', PInt 60)]),
            (''wind'', PDict []),
            (''weather'', PList [PDict [(''description'', PStr ''nubes''), (''id'', PInt 803)]])]"

definition clima_sin_humedad :: pyval where
  "clima_sin_humedad =
     PDict [(''main'', PDict [(''temp'', PFloat 21.34)]),
            (''wind'', PDict [(''speed'', PFloat 2)])]"

definition clima_sin_viento :: pyval where
  "clima_sin_viento =
     PDict [(''main'', PDict [(''temp'', PFloat 21.34), (''humidity'', PInt 60)])]"

definition clima_temp_nula :: pyval where
  "clima_temp_nula =
     PDict [(''main'', PDict [(''temp'', PNone), (''humidity'', PInt 60)]),
            (''wind'', PDict [(''speed'', PFloat 2)])]"

text \<open>
  Terms of the invariant of the forecast loop. A triple \<open>(i, dt, f)\<close> says that the
  entry \<open>f\<close> was built from the sample at index \<open>i\<close>, read at the local time \<open>dt\<close>,
  a midday hour of a date not seen before, and that no earlier sample with a midday
  hour has that date.
\<close>

definition mediodia :: "datetime \<Rightarrow> bool" where
  "mediodia dt = (hour dt \<in> {11, 12, 13})"

definition tomada :: "pylib \<Rightarrow> pyval list \<Rightarrow> string set \<Rightarrow> nat \<times> datetime \<times> pyval \<Rightarrow> bool" where
  "tomada L items seen = (\<lambda>(i, dt, f).
     i < length items \<and> sample_time L (items ! i) = Inr dt \<and> mediodia dt
     \<and> date_str dt \<notin> seen \<and> forecast_entry L (items ! i) dt = Inr f
     \<and> (\<forall>j<i. \<forall>dt'. sample_time L (items ! j) = Inr dt' \<and> mediodia dt'
            \<longrightarrow> date_str dt' \<noteq> date_str dt))"

definition desplazar :: "nat \<times> datetime \<times> pyval \<Rightarrow> nat \<times> datetime \<times> pyval" where
  "desplazar = (\<lambda>(i, dt, f). (Suc i, dt, f))"

text \<open>
  The clock of the examples: the local zone is UTC, and the clock is defined on the
  timestamps of January 2024, of which the first day is a Monday.
\<close>

definition fromtimestamp_utc :: "pyval \<Rightarrow> pyerr + datetime" where
  "fromtimestamp_utc v =
     (case v of
        PInt t \<Rightarrow>
          if 1704067200 \<le> t \<and> t < 1704067200 + 31 * 86400 then
            (let s = nat (t - 1704067200); d = s div 86400
             in Inr \<lparr> date_str = ''2024-01-'' @ [''0123'' ! ((d + 1) div 10), ''0123456789'' ! ((d + 1) mod 10)],
                      hour = (s mod 86400) div 3600,
                      weekday = d mod 7 \<rparr>)
          else Inl OverflowError
      | _ \<Rightarrow> Inl TypeError)"

definition lib_utc :: pylib where
  "lib_utc =
     \<lparr> float_of_str = (\<lambda>s. None),
       int_of_str = (\<lambda>s. None),
       str_of = (\<lambda>v. ''?''),
       fromtimestamp = fromtimestamp_utc,
       http_error_str = (\<lambda>status. ''HTTP error'') \<rparr>"

text \<open>A well-formed provider sample, the entry built from one, and a feed.\<close>

definition muestra :: "int \<Rightarrow> real \<Rightarrow> int \<Rightarrow> real \<Rightarrow> pyval" where
  "muestra t temp hum speed =
     PDict [(''dt'', PInt t),
            (''main'', PDict [(''temp'', PFloat temp), (''humidity'', PInt hum)]),
            (''wind'', PDict [(''speed'', PFloat speed)]),
            (''weather'', PList [PDict [(''description'', PStr ''nubes''), (''id'', PInt 803)]])]"

definition entrada :: "string \<Rightarrow> string \<Rightarrow> real \<Rightarrow> int \<Rightarrow> real \<Rightarrow> pyval" where
  "entrada f d temp hum vnt =
     PDict [(''fecha'', PStr f), (''dia'', PStr d), (''temperatura'', PFloat temp),
            (''humedad'', PInt hum), (''viento'', PFloat vnt), (''lluvia'', PFloat 0),
            (''condicion'', PStr ''nubes''), (''condicion_id'', PInt 803)]"

definition feed_ejemplo :: pyval where
  "feed_ejemplo =
     PDict [(''list'', PList [muestra 1704099600 18 50 5,
                             muestra 1704110400 22 50 5,
                             muestra 1704114000 23 50 5,
                             PDict [],
                             muestra 1704196800 24 60 10])]"

text \<open>
  Terms of the statements on the weekly analysis. A day is read when its three
  conversions succeed. The state of the loop over the days is coherent when the three
  series hold, in order, the values recorded in the pattern records, and each record
  carries the risk evaluated on its own values.
\<close>

definition dia_leido :: "pylib \<Rightarrow> pyval \<Rightarrow> bool" where
  "dia_leido L d = (case leer_dia L d of Inl e \<Rightarrow> False | Inr x \<Rightarrow> True)"

definition patron_coherente :: "patron_diario \<Rightarrow> bool" where
  "patron_coherente p =
     (riesgo_cultivo p =
        evaluar_riesgo_cultivo (cond_valor (temperatura (condiciones p)))
          (cond_valor (humedad (condiciones p))) (cond_valor (viento (condiciones p))))"

definition coherente :: "acumulado \<Rightarrow> bool" where
  "coherente ac =
     (temperaturas ac = map (\<lambda>p. cond_valor (temperatura (condiciones p))) (patrones ac)
      \<and> humedades ac = map (\<lambda>p. cond_valor (humedad (condiciones p))) (patrones ac)
      \<and> vientos ac = map (\<lambda>p. cond_valor (viento (condiciones p))) (patrones ac)
      \<and> list_all patron_coherente (patrones ac))"

text \<open>A feed of two days, and the analysis the code makes of it.\<close>

definition feed_semana :: pyval where
  "feed_semana =
     PDict [(''list'', PList [muestra 1704110400 22 85 7.5,
                             muestra 1704196800 24 60 5])]"

definition patron_lunes :: patron_diario where
  "patron_lunes =
     \<lparr> dia = ''Lunes'', fecha = ''2024-01-01'',
       condiciones =
         \<lparr> temperatura = \<lparr> cond_valor = 22, cond_categoria = ''moderada'' \<rparr>,
           humedad = \<lparr> cond_valor = 85, cond_categoria = ''alta'' \<rparr>,
           viento = \<lparr> cond_valor = 27, cond_categoria = ''fuerte'' \<rparr> \<rparr>,
       riesgo_cultivo =
         \<lparr> nivel = ''alto'', factores = [''humedad alta'', ''viento fuerte''], valor = 4 \<rparr> \<rparr>"

definition patron_martes :: patron_diario where
  "patron_martes =
     \<lparr> dia = ''Martes'', fecha = ''2024-01-02'',
       condiciones =
         \<lparr> temperatura = \<lparr> cond_valor = 24, cond_categoria = ''moderada'' \<rparr>,
           humedad = \<lparr> cond_valor = 60, cond_categoria = ''moderada'' \<rparr>,
           viento = \<lparr> cond_valor = 18, cond_categoria = ''moderado'' \<rparr> \<rparr>,
       riesgo_cultivo = \<lparr> nivel = ''bajo'', factores = [], valor = 0 \<rparr> \<rparr>"

definition analisis_ejemplo :: analisis_completo where
  "analisis_ejemplo =
     \<lparr> patrones_diarios = [patron_lunes, patron_martes],
       recomendaciones = [recomendacion_riego],
       alertas = [alerta_hongos],
       resumen =
         \<lparr> temperatura_promedio = 23, humedad_promedio = 72.5, viento_promedio = 22.5,
           tendencia_temperatura = ''aumentando'', tendencia_humedad = ''disminuyendo'' \<rparr> \<rparr>"

section \<open>Basic facts\<close>

lemma and_then_simps [simp]:
  "and_then (Inl e) f = Inl e" "and_then (Inr x) f = f x"
  by (simp_all add: and_then_def)

lemma and_then_Inr: "and_then m f = Inr y \<longleftrightarrow> (\<exists>x. m = Inr x \<and> f x = Inr y)"
  by (cases m) simp_all

lemma int_not_too_large [simp]:
  assumes "\<bar>i\<bar> \<le> 1000"
  shows "\<not> int_too_large i"
proof -
  have "(1000::int) < 2 ^ 10" by simp
  also have "(2::int) ^ 10 \<le> 2 ^ 970" by (rule power_increasing) simp_all
  finally have a: "\<bar>i\<bar> < 2 ^ 970" using assms by simp
  have "(2::int) ^ 1024 = 2 ^ 54 * 2 ^ 970" by (simp flip: power_add)
  moreover have "(2::int) * 2 ^ 970 \<le> 2 ^ 54 * 2 ^ 970"
    by (rule mult_right_mono) simp_all
  ultimately have "(2::int) ^ 970 \<le> 2 ^ 1024 - 2 ^ 970" by simp
  with a show ?thesis by (simp add: int_too_large_def)
qed

lemma datos_limpios_length:
  "datos_limpios datos = Inr limpios \<Longrightarrow> length limpios = length (filter es_numero datos)"
  by (induction datos arbitrary: limpios) (auto simp: and_then_Inr split: if_splits)

lemma datos_limpios_floats [simp]: "datos_limpios (map PFloat xs) = Inr xs"
  by (induction xs) simp_all

section \<open>Crop risk, categories and trend\<close>

text \<open>
  C1 (as amended). For temperature 32, humidity 85 and wind 10 the crop-risk evaluation
  returns the score 4 with the factors "temperatura alta" and "humedad alta", and the
  level "alto" (high): the level rule is score \<open>\<le> 1\<close> low, score \<open>\<le> 3\<close> medium, else
  high, and 4 is above 3.
\<close>

theorem evaluar_riesgo_cultivo_32_85_10:
  "evaluar_riesgo_cultivo 32 85 10 =
     \<lparr> nivel = ''alto'', factores = [''temperatura alta'', ''humedad alta''], valor = 4 \<rparr>
   \<and> nivel_riesgo s = (if s \<le> 1 then ''bajo'' else if s \<le> 3 then ''medio'' else ''alto'')"
  by (simp add: evaluar_riesgo_cultivo_def riesgo_temperatura_def riesgo_humedad_def
      riesgo_viento_def nivel_riesgo_def)

text \<open>
  C1 as stated fails: with score 4 and those two factors, the level the code returns
  is not "medio".
\<close>

theorem evaluar_riesgo_cultivo_32_85_10_not_medio:
  "\<not> (valor (evaluar_riesgo_cultivo 32 85 10) = 4
      \<and> factores (evaluar_riesgo_cultivo 32 85 10) = [''temperatura alta'', ''humedad alta'']
      \<and> nivel (evaluar_riesgo_cultivo 32 85 10) = ''medio'')"
  by (simp add: evaluar_riesgo_cultivo_def riesgo_temperatura_def riesgo_humedad_def
      riesgo_viento_def nivel_riesgo_def)

text \<open>
  C5. A temperature is categorised "fria" exactly when it is below 15, "moderada"
  exactly when it is at least 15 and below 25, and "caliente" exactly when it is at
  least 25; so 25.0 is "caliente", 15.0 is "moderada" and 14.9 is "fria".
\<close>

theorem categorizar_temperatura_buckets:
  "(categorizar_temperatura t = ''fr'' @ [CHR 0xED] @ ''a'' \<longleftrightarrow> t < 15)
   \<and> (categorizar_temperatura t = ''moderada'' \<longleftrightarrow> 15 \<le> t \<and> t < 25)
   \<and> (categorizar_temperatura t = ''caliente'' \<longleftrightarrow> 25 \<le> t)
   \<and> categorizar_temperatura 25.0 = ''caliente''
   \<and> categorizar_temperatura 15.0 = ''moderada''
   \<and> categorizar_temperatura 14.9 = ''fr'' @ [CHR 0xED] @ ''a''"
  by (simp add: categorizar_temperatura_def)

text \<open>
  C6. A series with fewer than 2 valid numeric points, such as the empty series or a
  series of length 1, has trend 0; the trend is a value for every series, no series
  makes the computation raise.
\<close>

theorem calcular_tendencia_few_points:
  "length (filter es_numero datos) < 2 \<Longrightarrow> calcular_tendencia datos = 0"
  by (auto simp: calcular_tendencia_def dest: datos_limpios_length split: sum.splits)

theorem calcular_tendencia_few_points_witness:
  "length (filter es_numero [PNone, PFloat 21.5, PStr ''x'']) < 2
   \<and> calcular_tendencia [PNone, PFloat 21.5, PStr ''x''] = 0
   \<and> calcular_tendencia [] = 0 \<and> calcular_tendencia [PFloat 21.5] = 0"
  using calcular_tendencia_few_points [of "[PNone, PFloat 21.5, PStr ''x'']"]
    calcular_tendencia_few_points [of "[]"] calcular_tendencia_few_points [of "[PFloat 21.5]"]
  by simp

lemma coef_constant_series: "linear_regression_coef [10, 10, 10, 10, 10] = 0"
  by (simp add: linear_regression_coef_def)

lemma coef_rising_series: "linear_regression_coef [10, 12, 14, 16, 18] = 2"
  by (simp add: linear_regression_coef_def upt_rec)

text \<open>
  C7. The least-squares slope over the series 10, 10, 10, 10, 10 is 0 and is read as
  "estable"; over 10, 12, 14, 16, 18 it is 2 and is read as "aumentando". A slope of
  magnitude below 0.1 is stable, otherwise a positive one is increasing and a negative
  one decreasing.
\<close>

theorem tendencia_examples:
  "calcular_tendencia (map PFloat [10, 10, 10, 10, 10]) = 0
   \<and> interpretar_tendencia (calcular_tendencia (map PFloat [10, 10, 10, 10, 10])) = ''estable''
   \<and> calcular_tendencia (map PFloat [10, 12, 14, 16, 18]) = 2
   \<and> interpretar_tendencia (calcular_tendencia (map PFloat [10, 12, 14, 16, 18])) = ''aumentando''
   \<and> interpretar_tendencia s =
       (if \<bar>s\<bar> < 0.1 then ''estable'' else if 0 < s then ''aumentando'' else ''disminuyendo'')"
  by (simp add: calcular_tendencia_def coef_constant_series coef_rising_series
      interpretar_tendencia_def)

section \<open>The retry loop\<close>









section \<open>Normalisation of the current weather\<close>

lemma make_request_first_response:
  "net 0 = Response status body \<Longrightarrow> \<not> raise_for_status status \<Longrightarrow>
   make_request L net = (Inr body, 1, 0)"
  by (simp add: make_request_def make_request_loop.simps [of _ _ 0] max_retries_def)

lemma make_request_respuesta_clima:
  "make_request L (respuesta_clima payload endpoint coords) = (Inr payload, 1, 0)"
  by (rule make_request_first_response [where status = 200])
     (simp_all add: respuesta_clima_def raise_for_status_def)

lemma py_getitem_Inr:
  "py_getitem v k = Inr x \<longleftrightarrow> (\<exists>kvs. v = PDict kvs \<and> map_of kvs k = Some x)"
  by (cases v) (auto split: option.splits)

lemma py_get_Inr:
  "py_get v k d = Inr x \<longleftrightarrow>
     (\<exists>kvs. v = PDict kvs \<and> x = (case map_of kvs k of None \<Rightarrow> d | Some y \<Rightarrow> y))"
  by (cases v) auto

lemma campo_temperatura_Inr:
  "campo_temperatura L (PDict kvs) = Inr x \<longleftrightarrow>
     (\<exists>m t temp. map_of kvs ''main'' = Some (PDict m) \<and> map_of m ''temp'' = Some t
        \<and> py_float L t = Inr temp \<and> x = PFloat (py_round1 temp))"
  unfolding campo_temperatura_def and_then_Inr py_getitem_Inr by auto

lemma campo_humedad_Inr:
  "campo_humedad L (PDict kvs) = Inr x \<longleftrightarrow>
     (\<exists>m h hum. map_of kvs ''main'' = Some (PDict m) \<and> map_of m ''humidity'' = Some h
        \<and> py_int L h = Inr hum \<and> x = PInt hum)"
  unfolding campo_humedad_def and_then_Inr py_getitem_Inr by auto

lemma campo_viento_Inr:
  "campo_viento L (PDict kvs) = Inr x \<longleftrightarrow>
     (\<exists>w speed. map_of kvs ''wind'' = Some (PDict w)
        \<and> py_float L (case map_of w ''speed'' of None \<Rightarrow> PInt 0 | Some s \<Rightarrow> s) = Inr speed
        \<and> x = PFloat (py_round1 (speed * 3.6)))"
  unfolding campo_viento_def and_then_Inr py_getitem_Inr py_get_Inr by auto

lemma campo_lluvia_Inr:
  "campo_lluvia L key (PDict kvs) = Inr rain \<longleftrightarrow>
     (\<exists>rd. (case map_of kvs ''rain'' of None \<Rightarrow> PDict [] | Some x \<Rightarrow> x) = PDict rd
        \<and> py_float L (case map_of rd key of None \<Rightarrow> PInt 0 | Some x \<Rightarrow> x) = Inr rain)"
  unfolding campo_lluvia_def and_then_Inr py_get_Inr by auto

lemma py_getitem0_dict:
  "(\<exists>w. py_getitem0 wv = Inr w \<and> py_getitem w k = Inr x) \<longleftrightarrow>
     (\<exists>wd rest. wv = PList (PDict wd # rest) \<and> map_of wd k = Some x)"
proof
  assume "\<exists>w. py_getitem0 wv = Inr w \<and> py_getitem w k = Inr x"
  then obtain w where w: "py_getitem0 wv = Inr w" "py_getitem w k = Inr x" by blast
  from w(2) obtain wd where wd: "w = PDict wd" "map_of wd k = Some x"
    by (auto simp: py_getitem_Inr)
  from w(1) wd(1) have "\<exists>rest. wv = PList (PDict wd # rest)"
    by (cases wv rule: py_getitem0.cases) auto
  with wd(2) show "\<exists>wd rest. wv = PList (PDict wd # rest) \<and> map_of wd k = Some x" by blast
next
  assume "\<exists>wd rest. wv = PList (PDict wd # rest) \<and> map_of wd k = Some x"
  then show "\<exists>w. py_getitem0 wv = Inr w \<and> py_getitem w k = Inr x" by auto
qed

lemma truthy_present:
  "py_truthy (case map_of kvs k of None \<Rightarrow> PNone | Some x \<Rightarrow> x)
   \<Longrightarrow> py_getitem (PDict kvs) k = Inr (case map_of kvs k of None \<Rightarrow> PNone | Some x \<Rightarrow> x)"
  by (cases "map_of kvs k") simp_all

lemma campo_condicion_Inr:
  "campo_condicion L (PDict kvs) = Inr x \<longleftrightarrow>
     (\<exists>c. x = PStr c
        \<and> ((\<not> py_truthy (case map_of kvs ''weather'' of None \<Rightarrow> PNone | Some x \<Rightarrow> x)
              \<and> c = ''desconocido'')
           \<or> (\<exists>wd rest d. (case map_of kvs ''weather'' of None \<Rightarrow> PNone | Some x \<Rightarrow> x)
                              = PList (PDict wd # rest)
                 \<and> map_of wd ''description'' = Some d \<and> c = py_str L d)))"
  (is "?l \<longleftrightarrow> ?r")
proof (cases "py_truthy (case map_of kvs ''weather'' of None \<Rightarrow> PNone | Some x \<Rightarrow> x)")
  case False
  then have "campo_condicion L (PDict kvs) = Inr (PStr ''desconocido'')"
    by (simp add: campo_condicion_def)
  with False show ?thesis by auto
next
  case True
  let ?wv = "case map_of kvs ''weather'' of None \<Rightarrow> PNone | Some x \<Rightarrow> x"
  from truthy_present [OF True] have p: "py_getitem (PDict kvs) ''weather'' = Inr ?wv" .
  have "?l \<longleftrightarrow> (\<exists>d. (\<exists>w. py_getitem0 ?wv = Inr w \<and> py_getitem w ''description'' = Inr d)
                    \<and> x = PStr (py_str L d))"
    using True p by (auto simp: campo_condicion_def and_then_Inr)
  also have "\<dots> \<longleftrightarrow> (\<exists>d wd rest. ?wv = PList (PDict wd # rest)
                    \<and> map_of wd ''description'' = Some d \<and> x = PStr (py_str L d))"
    unfolding py_getitem0_dict by blast
  also have "\<dots> \<longleftrightarrow> ?r" using True by auto
  finally show ?thesis .
qed

lemma campo_condicion_id_Inr:
  "campo_condicion_id L (PDict kvs) = Inr x \<longleftrightarrow>
     (\<exists>i. x = PInt i
        \<and> ((\<not> py_truthy (case map_of kvs ''weather'' of None \<Rightarrow> PNone | Some x \<Rightarrow> x)
              \<and> i = 800)
           \<or> (\<exists>wd rest n. (case map_of kvs ''weather'' of None \<Rightarrow> PNone | Some x \<Rightarrow> x)
                              = PList (PDict wd # rest)
                 \<and> map_of wd ''id'' = Some n \<and> py_int L n = Inr i)))"
  (is "?l \<longleftrightarrow> ?r")
proof (cases "py_truthy (case map_of kvs ''weather'' of None \<Rightarrow> PNone | Some x \<Rightarrow> x)")
  case False
  then have "campo_condicion_id L (PDict kvs) = Inr (PInt 800)"
    by (simp add: campo_condicion_id_def)
  with False show ?thesis by auto
next
  case True
  let ?wv = "case map_of kvs ''weather'' of None \<Rightarrow> PNone | Some x \<Rightarrow> x"
  from truthy_present [OF True] have p: "py_getitem (PDict kvs) ''weather'' = Inr ?wv" .
  have "?l \<longleftrightarrow> (\<exists>n i. (\<exists>w. py_getitem0 ?wv = Inr w \<and> py_getitem w ''id'' = Inr n)
                    \<and> py_int L n = Inr i \<and> x = PInt i)"
    using True p by (auto simp: campo_condicion_id_def and_then_Inr)
  also have "\<dots> \<longleftrightarrow> (\<exists>n i wd rest. ?wv = PList (PDict wd # rest)
                    \<and> map_of wd ''id'' = Some n \<and> py_int L n = Inr i \<and> x = PInt i)"
    unfolding py_getitem0_dict by blast
  also have "\<dots> \<longleftrightarrow> ?r" using True by auto
  finally show ?thesis .
qed

lemma all_in_requeridos:
  assumes "map_of m ''temp'' = Some t" "map_of m ''humidity'' = Some h"
  shows "all_in [''temp'', ''humidity''] (PDict m) = Inr True"
proof -
  from assms have "''temp'' \<in> fst ` set m" "''humidity'' \<in> fst ` set m"
    by (auto dest!: map_of_SomeD intro: rev_image_eqI)
  then show ?thesis by simp
qed

lemma normalizar_clima_Inr:
  "normalizar_clima L now (PDict kvs) = Inr r \<longleftrightarrow>
     (\<exists>m t temp h hum w speed rd rain c i.
         map_of kvs ''main'' = Some (PDict m)
       \<and> map_of m ''temp'' = Some t \<and> py_float L t = Inr temp
       \<and> map_of m ''humidity'' = Some h \<and> py_int L h = Inr hum
       \<and> map_of kvs ''wind'' = Some (PDict w)
       \<and> py_float L (case map_of w ''speed'' of None \<Rightarrow> PInt 0 | Some s \<Rightarrow> s) = Inr speed
       \<and> (case map_of kvs ''rain'' of None \<Rightarrow> PDict [] | Some x \<Rightarrow> x) = PDict rd
       \<and> py_float L (case map_of rd ''1h'' of None \<Rightarrow> PInt 0 | Some x \<Rightarrow> x) = Inr rain
       \<and> ((\<not> py_truthy (case map_of kvs ''weather'' of None \<Rightarrow> PNone | Some x \<Rightarrow> x)
             \<and> c = ''desconocido'' \<and> i = 800)
          \<or> (\<exists>wd rest d n.
                (case map_of kvs ''weather'' of None \<Rightarrow> PNone | Some x \<Rightarrow> x) = PList (PDict wd # rest)
              \<and> map_of wd ''description'' = Some d \<and> c = py_str L d
              \<and> map_of wd ''id'' = Some n \<and> py_int L n = Inr i))
       \<and> r = PDict [(''temperatura'', PFloat (py_round1 temp)),
                     (''humedad'', PInt hum),
                     (''viento'', PFloat (py_round1 (speed * 3.6))),
                     (''lluvia'', PFloat rain),
                     (''condicion'', PStr c),
                     (''condicion_id'', PInt i),
                     (''timestamp'', PStr now)])"
  (is "?l \<longleftrightarrow> ?r")
proof
  assume ?l
  then have "\<exists>x1 x2 x3 rain x5 x6.
      campo_temperatura L (PDict kvs) = Inr x1 \<and> campo_humedad L (PDict kvs) = Inr x2
    \<and> campo_viento L (PDict kvs) = Inr x3 \<and> campo_lluvia L ''1h'' (PDict kvs) = Inr rain
    \<and> campo_condicion L (PDict kvs) = Inr x5 \<and> campo_condicion_id L (PDict kvs) = Inr x6
    \<and> r = PDict [(''temperatura'', x1), (''humedad'', x2), (''viento'', x3),
                       (''lluvia'', PFloat rain), (''condicion'', x5), (''condicion_id'', x6),
                       (''timestamp'', PStr now)]"
    by (simp add: normalizar_clima_def and_then_Inr del: all_in.simps split: if_splits) blast
  then obtain x1 x2 x3 rain x5 x6 where
    f: "campo_temperatura L (PDict kvs) = Inr x1" "campo_humedad L (PDict kvs) = Inr x2"
      "campo_viento L (PDict kvs) = Inr x3" "campo_lluvia L ''1h'' (PDict kvs) = Inr rain"
      "campo_condicion L (PDict kvs) = Inr x5" "campo_condicion_id L (PDict kvs) = Inr x6"
    and r: "r = PDict [(''temperatura'', x1), (''humedad'', x2), (''viento'', x3),
                       (''lluvia'', PFloat rain), (''condicion'', x5), (''condicion_id'', x6),
                       (''timestamp'', PStr now)]"
    by blast
  from f(1) obtain m t temp where
    1: "map_of kvs ''main'' = Some (PDict m)" "map_of m ''temp'' = Some t"
       "py_float L t = Inr temp" "x1 = PFloat (py_round1 temp)"
    unfolding campo_temperatura_Inr by blast
  from f(2) 1(1) obtain h hum where
    2: "map_of m ''humidity'' = Some h" "py_int L h = Inr hum" "x2 = PInt hum"
    unfolding campo_humedad_Inr by auto
  from f(3) obtain w speed where
    3: "map_of kvs ''wind'' = Some (PDict w)"
       "py_float L (case map_of w ''speed'' of None \<Rightarrow> PInt 0 | Some s \<Rightarrow> s) = Inr speed"
       "x3 = PFloat (py_round1 (speed * 3.6))"
    unfolding campo_viento_Inr by blast
  from f(4) obtain rd where
    4: "(case map_of kvs ''rain'' of None \<Rightarrow> PDict [] | Some x \<Rightarrow> x) = PDict rd"
       "py_float L (case map_of rd ''1h'' of None \<Rightarrow> PInt 0 | Some x \<Rightarrow> x) = Inr rain"
    unfolding campo_lluvia_Inr by blast
  let ?wv = "case map_of kvs ''weather'' of None \<Rightarrow> PNone | Some x \<Rightarrow> x"
  from f(5) obtain c where
    5: "x5 = PStr c"
       "(\<not> py_truthy ?wv \<and> c = ''desconocido'')
        \<or> (\<exists>wd rest d. ?wv = PList (PDict wd # rest)
              \<and> map_of wd ''description'' = Some d \<and> c = py_str L d)"
    unfolding campo_condicion_Inr by blast
  from f(6) obtain i where
    6: "x6 = PInt i"
       "(\<not> py_truthy ?wv \<and> i = 800)
        \<or> (\<exists>wd rest n. ?wv = PList (PDict wd # rest)
              \<and> map_of wd ''id'' = Some n \<and> py_int L n = Inr i)"
    unfolding campo_condicion_id_Inr by blast
  have w: "(\<not> py_truthy ?wv \<and> c = ''desconocido'' \<and> i = 800)
          \<or> (\<exists>wd rest d n. ?wv = PList (PDict wd # rest)
              \<and> map_of wd ''description'' = Some d \<and> c = py_str L d
              \<and> map_of wd ''id'' = Some n \<and> py_int L n = Inr i)"
  proof (cases "py_truthy ?wv")
    case False
    with 5(2) 6(2) show ?thesis by auto
  next
    case True
    with 5(2) obtain wd rest d where a: "?wv = PList (PDict wd # rest)"
      "map_of wd ''description'' = Some d" "c = py_str L d" by blast
    from True 6(2) obtain wd' rest' n where b: "?wv = PList (PDict wd' # rest')"
      "map_of wd' ''id'' = Some n" "py_int L n = Inr i" by blast
    from a(1) b(1) have "wd' = wd" by simp
    with a b show ?thesis by blast
  qed
  from 1 2 3 4 w show ?r
    unfolding r 5(1) 6(1) by blast
next
  assume ?r
  then obtain m t temp h hum w speed rd rain c i where
    1: "map_of kvs ''main'' = Some (PDict m)" "map_of m ''temp'' = Some t"
       "py_float L t = Inr temp"
    and 2: "map_of m ''humidity'' = Some h" "py_int L h = Inr hum"
    and 3: "map_of kvs ''wind'' = Some (PDict w)"
       "py_float L (case map_of w ''speed'' of None \<Rightarrow> PInt 0 | Some s \<Rightarrow> s) = Inr speed"
    and 4: "(case map_of kvs ''rain'' of None \<Rightarrow> PDict [] | Some x \<Rightarrow> x) = PDict rd"
       "py_float L (case map_of rd ''1h'' of None \<Rightarrow> PInt 0 | Some x \<Rightarrow> x) = Inr rain"
    and w: "(\<not> py_truthy (case map_of kvs ''weather'' of None \<Rightarrow> PNone | Some x \<Rightarrow> x)
             \<and> c = ''desconocido'' \<and> i = 800)
          \<or> (\<exists>wd rest d n.
                (case map_of kvs ''weather'' of None \<Rightarrow> PNone | Some x \<Rightarrow> x) = PList (PDict wd # rest)
              \<and> map_of wd ''description'' = Some d \<and> c = py_str L d
              \<and> map_of wd ''id'' = Some n \<and> py_int L n = Inr i)"
    and r: "r = PDict [(''temperatura'', PFloat (py_round1 temp)),
                     (''humedad'', PInt hum),
                     (''viento'', PFloat (py_round1 (speed * 3.6))),
                     (''lluvia'', PFloat rain),
                     (''condicion'', PStr c),
                     (''condicion_id'', PInt i),
                     (''timestamp'', PStr now)]"
    by blast
  have a: "all_in [''temp'', ''humidity''] (PDict m) = Inr True"
    using 1(2) 2(1) by (rule all_in_requeridos)
  have f1: "campo_temperatura L (PDict kvs) = Inr (PFloat (py_round1 temp))"
    unfolding campo_temperatura_Inr using 1 by blast
  have f2: "campo_humedad L (PDict kvs) = Inr (PInt hum)"
    unfolding campo_humedad_Inr using 1(1) 2 by blast
  have f3: "campo_viento L (PDict kvs) = Inr (PFloat (py_round1 (speed * 3.6)))"
    unfolding campo_viento_Inr using 3 by blast
  have f4: "campo_lluvia L ''1h'' (PDict kvs) = Inr rain"
    unfolding campo_lluvia_Inr using 4 by blast
  have f5: "campo_condicion L (PDict kvs) = Inr (PStr c)"
    unfolding campo_condicion_Inr using w by blast
  have f6: "campo_condicion_id L (PDict kvs) = Inr (PInt i)"
    unfolding campo_condicion_id_Inr using w by blast
  show ?l
    unfolding normalizar_clima_def r using 1(1) a
    by (simp add: f1 f2 f3 f4 f5 f6 del: all_in.simps)
qed

lemma normalizar_clima_sin_requeridos:
  assumes "\<not> (\<exists>m t h. map_of kvs ''main'' = Some (PDict m)
                 \<and> map_of m ''temp'' = Some t \<and> map_of m ''humidity'' = Some h)"
  shows "\<exists>e. normalizar_clima L now (PDict kvs) = Inl e \<and> error_clima e = ValueError"
proof (cases "map_of kvs ''main''")
  case None
  then show ?thesis by (simp add: normalizar_clima_def error_clima_def)
next
  case (Some mv)
  show ?thesis
  proof (cases mv)
    case (PDict m)
    with assms Some have "map_of m ''temp'' = None \<or> map_of m ''humidity'' = None" by auto
    then have "''temp'' \<notin> fst ` set m \<or> ''humidity'' \<notin> fst ` set m"
      by (simp add: map_of_eq_None_iff)
    then show ?thesis using Some PDict
      by (auto simp: normalizar_clima_def error_clima_def)
  qed (use Some in \<open>auto simp: normalizar_clima_def error_clima_def campo_temperatura_def\<close>)
qed

text \<open>
  C3 (as amended). For a current-weather payload that is a JSON object, normalisation
  fails with ValueError whenever \<^verbatim>\<open>main.temp\<close> or \<^verbatim>\<open>main.humidity\<close> is absent (the
  \<^verbatim>\<open>main\<close> object absent, not an object, or lacking one of the two keys), but not only
  then. It succeeds exactly when \<^verbatim>\<open>main.temp\<close> converts to a float and
  \<^verbatim>\<open>main.humidity\<close> to an int, the \<^verbatim>\<open>wind\<close> object is present and its speed, 0 when
  absent from that object, converts to a float, \<^verbatim>\<open>rain\<close> is absent or an object whose
  \<^verbatim>\<open>1h\<close> entry, 0 when absent, converts to a float, and \<^verbatim>\<open>weather\<close> is absent or
  empty or a list whose first element is an object with a description and an id that
  converts to an int. The result then has the wind speed multiplied by 3.6 and rounded
  to 1 decimal, the rain, and the condition "desconocido" with code 800 when
  \<^verbatim>\<open>weather\<close> is absent or empty, the description and id of its first element
  otherwise.
\<close>

theorem get_current_weather_normalization:
  assumes "fst (make_request L (net ''weather'' (lat, lon))) = Inr data"
  shows "(get_current_weather L net now lat lon = Inr r \<longleftrightarrow>
     (\<exists>kvs m t temp h hum w speed rd rain c i.
         data = PDict kvs
       \<and> map_of kvs ''main'' = Some (PDict m)
       \<and> map_of m ''temp'' = Some t \<and> py_float L t = Inr temp
       \<and> map_of m ''humidity'' = Some h \<and> py_int L h = Inr hum
       \<and> map_of kvs ''wind'' = Some (PDict w)
       \<and> py_float L (case map_of w ''speed'' of None \<Rightarrow> PInt 0 | Some s \<Rightarrow> s) = Inr speed
       \<and> (case map_of kvs ''rain'' of None \<Rightarrow> PDict [] | Some x \<Rightarrow> x) = PDict rd
       \<and> py_float L (case map_of rd ''1h'' of None \<Rightarrow> PInt 0 | Some x \<Rightarrow> x) = Inr rain
       \<and> ((\<not> py_truthy (case map_of kvs ''weather'' of None \<Rightarrow> PNone | Some x \<Rightarrow> x)
             \<and> c = ''desconocido'' \<and> i = 800)
          \<or> (\<exists>wd rest d n.
                (case map_of kvs ''weather'' of None \<Rightarrow> PNone | Some x \<Rightarrow> x) = PList (PDict wd # rest)
              \<and> map_of wd ''description'' = Some d \<and> c = py_str L d
              \<and> map_of wd ''id'' = Some n \<and> py_int L n = Inr i))
       \<and> r = PDict [(''temperatura'', PFloat (py_round1 temp)),
                     (''humedad'', PInt hum),
                     (''viento'', PFloat (py_round1 (speed * 3.6))),
                     (''lluvia'', PFloat rain),
                     (''condicion'', PStr c),
                     (''condicion_id'', PInt i),
                     (''timestamp'', PStr now)]))
   \<and> (data = PDict kvs'
        \<and> \<not> (\<exists>m t h. map_of kvs' ''main'' = Some (PDict m)
                  \<and> map_of m ''temp'' = Some t \<and> map_of m ''humidity'' = Some h)
       \<longrightarrow> get_current_weather L net now lat lon = Inl ValueError)"
proof (intro conjI impI)
  have g: "get_current_weather L net now lat lon = Inr r \<longleftrightarrow> normalizar_clima L now data = Inr r"
    using assms by (simp add: get_current_weather_def split: sum.splits)
  show "get_current_weather L net now lat lon = Inr r \<longleftrightarrow>
     (\<exists>kvs m t temp h hum w speed rd rain c i.
         data = PDict kvs
       \<and> map_of kvs ''main'' = Some (PDict m)
       \<and> map_of m ''temp'' = Some t \<and> py_float L t = Inr temp
       \<and> map_of m ''humidity'' = Some h \<and> py_int L h = Inr hum
       \<and> map_of kvs ''wind'' = Some (PDict w)
       \<and> py_float L (case map_of w ''speed'' of None \<Rightarrow> PInt 0 | Some s \<Rightarrow> s) = Inr speed
       \<and> (case map_of kvs ''rain'' of None \<Rightarrow> PDict [] | Some x \<Rightarrow> x) = PDict rd
       \<and> py_float L (case map_of rd ''1h'' of None \<Rightarrow> PInt 0 | Some x \<Rightarrow> x) = Inr rain
       \<and> ((\<not> py_truthy (case map_of kvs ''weather'' of None \<Rightarrow> PNone | Some x \<Rightarrow> x)
             \<and> c = ''desconocido'' \<and> i = 800)
          \<or> (\<exists>wd rest d n.
                (case map_of kvs ''weather'' of None \<Rightarrow> PNone | Some x \<Rightarrow> x) = PList (PDict wd # rest)
              \<and> map_of wd ''description'' = Some d \<and> c = py_str L d
              \<and> map_of wd ''id'' = Some n \<and> py_int L n = Inr i))
       \<and> r = PDict [(''temperatura'', PFloat (py_round1 temp)),
                     (''humedad'', PInt hum),
                     (''viento'', PFloat (py_round1 (speed * 3.6))),
                     (''lluvia'', PFloat rain),
                     (''condicion'', PStr c),
                     (''condicion_id'', PInt i),
                     (''timestamp'', PStr now)])"
  proof (cases "\<exists>kvs. data = PDict kvs")
    case True
    then obtain kvs where d: "data = PDict kvs" by blast
    show ?thesis unfolding g d normalizar_clima_Inr by simp
  next
    case False
    then have "normalizar_clima L now data \<noteq> Inr r"
      by (cases data) (simp_all add: normalizar_clima_def)
    with False show ?thesis unfolding g by blast
  qed
next
  assume a: "data = PDict kvs'
        \<and> \<not> (\<exists>m t h. map_of kvs' ''main'' = Some (PDict m)
                  \<and> map_of m ''temp'' = Some t \<and> map_of m ''humidity'' = Some h)"
  then obtain e where "normalizar_clima L now data = Inl e" "error_clima e = ValueError"
    using normalizar_clima_sin_requeridos [of kvs' L now] by blast
  with assms show "get_current_weather L net now lat lon = Inl ValueError"
    by (simp add: get_current_weather_def)
qed

theorem get_current_weather_normalization_witness:
  "fst (make_request lib_ejemplo (respuesta_clima clima_nublado ''weather'' (0, 0))) = Inr clima_nublado
   \<and> get_current_weather lib_ejemplo (respuesta_clima clima_nublado) ''2024-01-01T12:00:00'' 0 0 =
       Inr (PDict [(''temperatura'', PFloat 21.3),
                   (''humedad'', PInt 60),
                   (''viento'', PFloat 0),
                   (''lluvia'', PFloat 0),
                   (''condicion'', PStr ''nubes''),
                   (''condicion_id'', PInt 803),
                   (''timestamp'', PStr ''2024-01-01T12:00:00'')])
   \<and> fst (make_request lib_ejemplo (respuesta_clima clima_minimo ''weather'' (0, 0))) = Inr clima_minimo
   \<and> get_current_weather lib_ejemplo (respuesta_clima clima_minimo) ''2024-01-01T12:00:00'' 0 0 =
       Inr (PDict [(''temperatura'', PFloat 21.3),
                   (''humedad'', PInt 60),
                   (''viento'', PFloat 0),
                   (''lluvia'', PFloat 0),
                   (''condicion'', PStr ''desconocido''),
                   (''condicion_id'', PInt 800),
                   (''timestamp'', PStr ''2024-01-01T12:00:00'')])
   \<and> fst (make_request lib_ejemplo (respuesta_clima clima_sin_humedad ''weather'' (0, 0))) =
       Inr clima_sin_humedad
   \<and> get_current_weather lib_ejemplo (respuesta_clima clima_sin_humedad) ''2024-01-01T12:00:00'' 0 0 =
       Inl ValueError"
proof -
  have r1: "fst (make_request lib_ejemplo (respuesta_clima clima_nublado ''weather'' (0, 0)))
      = Inr clima_nublado"
    and r2: "fst (make_request lib_ejemplo (respuesta_clima clima_minimo ''weather'' (0, 0)))
      = Inr clima_minimo"
    and r3: "fst (make_request lib_ejemplo (respuesta_clima clima_sin_humedad ''weather'' (0, 0)))
      = Inr clima_sin_humedad"
    by (simp_all add: make_request_respuesta_clima)
  have p: "py_round1 21.34 = 21.3" "py_round1 (0 * 3.6) = 0"
    by (simp_all add: py_round1_def round_half_even_def)
  have ok1: "get_current_weather lib_ejemplo (respuesta_clima clima_nublado) ''2024-01-01T12:00:00'' 0 0 =
       Inr (PDict [(''temperatura'', PFloat (py_round1 21.34)),
                   (''humedad'', PInt 60),
                   (''viento'', PFloat (py_round1 (0 * 3.6))),
                   (''lluvia'', PFloat 0),
                   (''condicion'', PStr ''nubes''),
                   (''condicion_id'', PInt 803),
                   (''timestamp'', PStr ''2024-01-01T12:00:00'')])"
    apply (rule get_current_weather_normalization
          [where net = "respuesta_clima clima_nublado" and lat = 0 and lon = 0,
           OF r1, THEN conjunct1, THEN iffD2])
    apply (rule exI [of _ "[(''main'', PDict [(''temp'', PFloat 21.34), (''humidity'', PInt 60)]),
            (''wind'', PDict []),
            (''weather'', PList [PDict [(''description'', PStr ''nubes''), (''id'', PInt 803)]])]"])
    apply (rule exI [of _ "[(''temp'', PFloat 21.34), (''humidity'', PInt 60)]"])
    apply (rule exI [of _ "PFloat 21.34"], rule exI [of _ "21.34"])
    apply (rule exI [of _ "PInt 60"], rule exI [of _ 60])
    apply (rule exI [of _ "[]"], rule exI [of _ 0])
    apply (rule exI [of _ "[]"], rule exI [of _ 0])
    apply (rule exI [of _ "''nubes''"], rule exI [of _ 803])
    by (simp add: clima_nublado_def)
  have ok2: "get_current_weather lib_ejemplo (respuesta_clima clima_minimo) ''2024-01-01T12:00:00'' 0 0 =
       Inr (PDict [(''temperatura'', PFloat (py_round1 21.34)),
                   (''humedad'', PInt 60),
                   (''viento'', PFloat (py_round1 (0 * 3.6))),
                   (''lluvia'', PFloat 0),
                   (''condicion'', PStr ''desconocido''),
                   (''condicion_id'', PInt 800),
                   (''timestamp'', PStr ''2024-01-01T12:00:00'')])"
    apply (rule get_current_weather_normalization
          [where net = "respuesta_clima clima_minimo" and lat = 0 and lon = 0,
           OF r2, THEN conjunct1, THEN iffD2])
    apply (rule exI [of _ "[(''main'', PDict [(''temp'', PFloat 21.34), (''humidity'', PInt 60)]),
            (''wind'', PDict [])]"])
    apply (rule exI [of _ "[(''temp'', PFloat 21.34), (''humidity'', PInt 60)]"])
    apply (rule exI [of _ "PFloat 21.34"], rule exI [of _ "21.34"])
    apply (rule exI [of _ "PInt 60"], rule exI [of _ 60])
    apply (rule exI [of _ "[]"], rule exI [of _ 0])
    apply (rule exI [of _ "[]"], rule exI [of _ 0])
    apply (rule exI [of _ "''desconocido''"], rule exI [of _ 800])
    by (simp add: clima_minimo_def)
  have bad: "get_current_weather lib_ejemplo (respuesta_clima clima_sin_humedad) ''2024-01-01T12:00:00'' 0 0 =
       Inl ValueError"
    by (rule get_current_weather_normalization
          [where net = "respuesta_clima clima_sin_humedad" and lat = 0 and lon = 0
             and kvs' = "[(''main'', PDict [(''temp'', PFloat 21.34)]),
                          (''wind'', PDict [(''speed'', PFloat 2)])]",
           OF r3, THEN conjunct2, THEN mp])
       (simp add: clima_sin_humedad_def)
  from ok1 ok2 bad r1 r2 r3 p show ?thesis by simp
qed

text \<open>
  C3 as stated fails: with \<^verbatim>\<open>main.temp\<close> and \<^verbatim>\<open>main.humidity\<close> both present,
  normalisation still fails with ValueError when the payload has no \<^verbatim>\<open>wind\<close> object,
  and when \<^verbatim>\<open>main.temp\<close> is null.
\<close>

theorem get_current_weather_fails_with_both_present:
  "py_contains ''temp'' (PDict [(''temp'', PFloat 21.34), (''humidity'', PInt 60)]) = Inr True
   \<and> py_contains ''humidity'' (PDict [(''temp'', PFloat 21.34), (''humidity'', PInt 60)]) = Inr True
   \<and> get_current_weather lib_ejemplo (respuesta_clima clima_sin_viento) ''2024-01-01T12:00:00'' 0 0 =
       Inl ValueError
   \<and> py_contains ''temp'' (PDict [(''temp'', PNone), (''humidity'', PInt 60)]) = Inr True
   \<and> py_contains ''humidity'' (PDict [(''temp'', PNone), (''humidity'', PInt 60)]) = Inr True
   \<and> get_current_weather lib_ejemplo (respuesta_clima clima_temp_nula) ''2024-01-01T12:00:00'' 0 0 =
       Inl ValueError"
  by (simp add: get_current_weather_def make_request_respuesta_clima clima_sin_viento_def
      clima_temp_nula_def normalizar_clima_def campo_temperatura_def campo_humedad_def
      campo_viento_def error_clima_def py_round1_def)

section \<open>The forecast: one entry per date\<close>

lemma tomada_desplazar:
  assumes "tomada L rest seen' s" "seen \<subseteq> seen'"
    "\<And>dt'. sample_time L x = Inr dt' \<Longrightarrow> mediodia dt' \<Longrightarrow> date_str dt' \<in> seen'"
  shows "tomada L (x # rest) seen (desplazar s)"
proof -
  obtain i dt f where s: "s = (i, dt, f)" by (cases s)
  from assms(1) have t: "i < length rest" "sample_time L (rest ! i) = Inr dt" "mediodia dt"
    "date_str dt \<notin> seen'" "forecast_entry L (rest ! i) dt = Inr f"
    "\<And>j dt'. j < i \<Longrightarrow> sample_time L (rest ! j) = Inr dt' \<Longrightarrow> mediodia dt'
        \<Longrightarrow> date_str dt' \<noteq> date_str dt"
    by (auto simp: tomada_def s)
  have "date_str dt' \<noteq> date_str dt"
    if "j < Suc i" "sample_time L ((x # rest) ! j) = Inr dt'" "mediodia dt'" for j dt'
  proof (cases j)
    case 0
    with that assms(3) have "date_str dt' \<in> seen'" by simp
    with t(4) show ?thesis by auto
  next
    case (Suc j')
    with that t(6) [of j' dt'] show ?thesis by simp
  qed
  with t assms(2) show ?thesis
    by (auto simp: tomada_def desplazar_def s)
qed

lemma desplazar_simps [simp]:
  "fst (desplazar s) = Suc (fst s)" "fst (snd (desplazar s)) = fst (snd s)"
  "snd (snd (desplazar s)) = snd (snd s)"
  by (cases s; simp add: desplazar_def)+

lemma sorted_desplazar:
  "sorted_wrt (<) (map fst sel) \<Longrightarrow> sorted_wrt (<) (map (\<lambda>s. Suc (fst s)) sel)"
  by (simp add: sorted_wrt_map)

lemma forecast_loop_Cons:
  "forecast_loop L (item # rest) daily seen =
     (case sample_time L item of
        Inl e \<Rightarrow> if se_omite e then forecast_loop L rest daily seen else Inl e
      | Inr dt \<Rightarrow>
          if mediodia dt \<and> date_str dt \<notin> seen then
            (case forecast_entry L item dt of
               Inl e \<Rightarrow>
                 if se_omite e then forecast_loop L rest daily (insert (date_str dt) seen)
                 else Inl e
             | Inr forecast \<Rightarrow>
                 if length (daily @ [forecast]) \<ge> 5 then Inr (daily @ [forecast])
                 else forecast_loop L rest (daily @ [forecast]) (insert (date_str dt) seen))
          else forecast_loop L rest daily seen)"
  unfolding mediodia_def by simp

lemma forecast_loop_inv:
  assumes "forecast_loop L items daily seen = Inr out" "length daily < 5"
  shows "\<exists>sel. out = daily @ map (\<lambda>s. snd (snd s)) sel \<and> length out \<le> 5
           \<and> sorted_wrt (<) (map fst sel)
           \<and> distinct (map (\<lambda>s. date_str (fst (snd s))) sel)
           \<and> list_all (tomada L items seen) sel"
  using assms
  supply forecast_loop.simps(2) [simp del] forecast_loop_Cons [simp]
proof (induction items arbitrary: daily seen)
  case Nil
  then show ?case by (intro exI [of _ "[]"]) simp
next
  case (Cons x rest)
  let ?P = "\<lambda>daily' seen' sel. out = daily' @ map (\<lambda>s. snd (snd s)) sel \<and> length out \<le> 5
           \<and> sorted_wrt (<) (map fst sel)
           \<and> distinct (map (\<lambda>s. date_str (fst (snd s))) sel)
           \<and> list_all (tomada L rest seen') sel"
  have skip: ?case
    if r: "forecast_loop L rest daily seen' = Inr out" and sub: "seen \<subseteq> seen'"
      and x: "\<And>dt'. sample_time L x = Inr dt' \<Longrightarrow> mediodia dt' \<Longrightarrow> date_str dt' \<in> seen'"
    for seen'
  proof -
    from Cons.IH [OF r Cons.prems(2)] obtain sel where sel: "?P daily seen' sel" by blast
    have "list_all (tomada L (x # rest) seen) (map desplazar sel)"
      using sel tomada_desplazar [OF _ sub x] by (auto simp: list_all_iff)
    with sel show ?thesis
      by (intro exI [of _ "map desplazar sel"]) (clarsimp simp: o_def sorted_desplazar)
  qed
  show ?case
  proof (cases "sample_time L x")
    case (Inl e)
    with Cons.prems(1) have "forecast_loop L rest daily seen = Inr out"
      by (simp split: if_splits)
    then show ?thesis using Inl by (intro skip [of seen]) simp_all
  next
    case (Inr dt)
    show ?thesis
    proof (cases "mediodia dt \<and> date_str dt \<notin> seen")
      case False
      with Cons.prems(1) Inr have "forecast_loop L rest daily seen = Inr out"
        by simp
      then show ?thesis using Inr False by (intro skip [of seen]) auto
    next
      case True
      show ?thesis
      proof (cases "forecast_entry L x dt")
        case (Inl e)
        with Cons.prems(1) Inr True
        have "forecast_loop L rest daily (insert (date_str dt) seen) = Inr out"
          by (simp split: if_splits)
        then show ?thesis using Inr by (intro skip [of "insert (date_str dt) seen"]) auto
      next
        case f: (Inr f)
        have t0: "tomada L (x # rest) seen (0, dt, f)"
          using Inr True f by (simp add: tomada_def)
        show ?thesis
        proof (cases "length (daily @ [f]) \<ge> 5")
          case True
          with Cons.prems Inr \<open>mediodia dt \<and> date_str dt \<notin> seen\<close> f
          have "out = daily @ [f]" by simp
          with t0 Cons.prems(2) show ?thesis
            by (intro exI [of _ "[(0, dt, f)]"]) simp
        next
          case False
          with Cons.prems Inr \<open>mediodia dt \<and> date_str dt \<notin> seen\<close> f
          have r: "forecast_loop L rest (daily @ [f]) (insert (date_str dt) seen) = Inr out"
            by simp
          from False have "length (daily @ [f]) < 5" by simp
          from Cons.IH [OF r this] obtain sel
            where sel: "?P (daily @ [f]) (insert (date_str dt) seen) sel" by blast
          have a: "list_all (tomada L (x # rest) seen) (map desplazar sel)"
            using sel Inr
              tomada_desplazar [of L rest "insert (date_str dt) seen" _ seen x]
            by (auto simp: list_all_iff)
          have "\<forall>s \<in> set sel. date_str (fst (snd s)) \<noteq> date_str dt"
            using sel by (auto simp: list_all_iff tomada_def)
          then have d: "date_str dt \<notin> (\<lambda>s. date_str (fst (snd s))) ` set sel" by auto
          from sel a d t0 show ?thesis
            by (intro exI [of _ "(0, dt, f) # map desplazar sel"])
               (clarsimp simp: o_def sorted_desplazar)
        qed
      qed
    qed
  qed
qed


lemma forecast_entry_fecha:
  "forecast_entry L item dt = Inr f \<Longrightarrow> py_getitem f ''fecha'' = Inr (PStr (date_str dt))"
  by (auto simp: forecast_entry_def and_then_def split: sum.splits)

lemma daily_forecasts_of_Inr:
  assumes "daily_forecasts_of L data = Inr fs"
  shows "\<exists>l items. py_getitem data ''list'' = Inr l \<and> py_iter l = Inr items
           \<and> forecast_loop L items [] {} = Inr fs"
  using assms
  by (auto simp: daily_forecasts_of_def and_then_def split: sum.splits if_splits)

text \<open>
  C4. Whatever feed the provider returns, a forecast that is returned has at most 5
  entries, with pairwise distinct dates, in the order in which their samples occur in
  the feed (the indices of the samples the entries are built from increase), and each
  entry is built from the first sample of its date whose local hour is 11, 12 or 13.
\<close>

theorem get_forecast_entries:
  assumes "get_forecast L net lat lon = Inr r"
  shows "\<exists>data l items fs idx.
      fst (make_request L (net ''forecast'' (lat, lon))) = Inr data
    \<and> py_getitem data ''list'' = Inr l \<and> py_iter l = Inr items
    \<and> r = PDict [(''pronostico'', PList fs)]
    \<and> length fs \<le> 5
    \<and> distinct (map (\<lambda>f. py_getitem f ''fecha'') fs)
    \<and> length idx = length fs \<and> sorted_wrt (<) idx
    \<and> (\<forall>k<length fs. \<exists>dt.
          idx ! k < length items
        \<and> sample_time L (items ! (idx ! k)) = Inr dt
        \<and> hour dt \<in> {11, 12, 13}
        \<and> forecast_entry L (items ! (idx ! k)) dt = Inr (fs ! k)
        \<and> py_getitem (fs ! k) ''fecha'' = Inr (PStr (date_str dt))
        \<and> (\<forall>j<idx ! k. \<forall>dt'. sample_time L (items ! j) = Inr dt' \<and> hour dt' \<in> {11, 12, 13}
               \<longrightarrow> date_str dt' \<noteq> date_str dt))"
proof -
  from assms obtain data fs where
    d: "fst (make_request L (net ''forecast'' (lat, lon))) = Inr data"
    and f: "daily_forecasts_of L data = Inr fs"
    and r: "r = PDict [(''pronostico'', PList fs)]"
    by (auto simp: get_forecast_def and_then_def split: sum.splits)
  from daily_forecasts_of_Inr [OF f] obtain l items where
    l: "py_getitem data ''list'' = Inr l" "py_iter l = Inr items"
    and loop: "forecast_loop L items [] {} = Inr fs"
    by blast
  from forecast_loop_inv [OF loop] obtain sel where
    sel: "fs = map (\<lambda>s. snd (snd s)) sel" "length fs \<le> 5" "sorted_wrt (<) (map fst sel)"
      "distinct (map (\<lambda>s. date_str (fst (snd s))) sel)" "list_all (tomada L items {}) sel"
    by auto
  have each: "tomada L items {} (sel ! k)" if "k < length sel" for k
    using sel(5) that by (simp add: list_all_length)
  have fecha: "py_getitem (snd (snd s)) ''fecha'' = Inr (PStr (date_str (fst (snd s))))"
    if "s \<in> set sel" for s
  proof -
    from that sel(5) have "tomada L items {} s" by (simp add: list_all_iff)
    then show ?thesis by (cases s) (auto simp: tomada_def dest: forecast_entry_fecha)
  qed
  have "map (\<lambda>f. py_getitem f ''fecha'') fs
        = map (\<lambda>d. Inr (PStr d)) (map (\<lambda>s. date_str (fst (snd s))) sel)"
    using fecha by (simp add: sel(1))
  moreover have "distinct (map (\<lambda>d. Inr (PStr d) :: pyerr + pyval) (map (\<lambda>s. date_str (fst (snd s))) sel))"
    using sel(4) by (subst distinct_map) (auto simp: inj_on_def)
  ultimately have dist: "distinct (map (\<lambda>f. py_getitem f ''fecha'') fs)" by simp
  have per: "\<exists>dt. map fst sel ! k < length items
        \<and> sample_time L (items ! (map fst sel ! k)) = Inr dt
        \<and> hour dt \<in> {11, 12, 13}
        \<and> forecast_entry L (items ! (map fst sel ! k)) dt = Inr (fs ! k)
        \<and> py_getitem (fs ! k) ''fecha'' = Inr (PStr (date_str dt))
        \<and> (\<forall>j<map fst sel ! k. \<forall>dt'. sample_time L (items ! j) = Inr dt' \<and> hour dt' \<in> {11, 12, 13}
               \<longrightarrow> date_str dt' \<noteq> date_str dt)"
    if "k < length fs" for k
  proof -
    from that have k: "k < length sel" by (simp add: sel(1))
    obtain i dt e where s: "sel ! k = (i, dt, e)" by (cases "sel ! k")
    from each [OF k] have t: "i < length items" "sample_time L (items ! i) = Inr dt"
      "mediodia dt" "forecast_entry L (items ! i) dt = Inr e"
      "\<forall>j<i. \<forall>dt'. sample_time L (items ! j) = Inr dt' \<and> mediodia dt'
            \<longrightarrow> date_str dt' \<noteq> date_str dt"
      by (auto simp: tomada_def s)
    have i: "map fst sel ! k = i" and e: "fs ! k = e" using k s by (simp_all add: sel(1))
    from t forecast_entry_fecha [OF t(4)] show ?thesis
      unfolding i e mediodia_def by (intro exI [of _ dt]) simp
  qed
  show ?thesis
    apply (rule exI [of _ data])
    apply (rule exI [of _ l])
    apply (rule exI [of _ items])
    apply (rule exI [of _ fs])
    apply (rule exI [of _ "map fst sel"])
    using d l r sel(2,3) dist per by (simp add: sel(1))
qed

lemma sample_time_muestra:
  "sample_time lib_utc (muestra 1704099600 a b c) = Inr \<lparr> date_str = ''2024-01-01'', hour = 9, weekday = 0 \<rparr>"
  "sample_time lib_utc (muestra 1704110400 a b c) = Inr \<lparr> date_str = ''2024-01-01'', hour = 12, weekday = 0 \<rparr>"
  "sample_time lib_utc (muestra 1704114000 a b c) = Inr \<lparr> date_str = ''2024-01-01'', hour = 13, weekday = 0 \<rparr>"
  "sample_time lib_utc (muestra 1704196800 a b c) = Inr \<lparr> date_str = ''2024-01-02'', hour = 12, weekday = Suc 0 \<rparr>"
  "sample_time lib_utc (PDict []) = Inl KeyError"
  by (simp_all add: sample_time_def muestra_def lib_utc_def fromtimestamp_utc_def Let_def)

lemma forecast_entry_muestra:
  "forecast_entry lib_utc (muestra 1704110400 22 50 5) \<lparr> date_str = ''2024-01-01'', hour = 12, weekday = 0 \<rparr>
     = Inr (entrada ''2024-01-01'' ''Lunes'' 22 50 18)"
  "forecast_entry lib_utc (muestra 1704196800 24 60 10) \<lparr> date_str = ''2024-01-02'', hour = 12, weekday = Suc 0 \<rparr>
     = Inr (entrada ''2024-01-02'' ''Martes'' 24 60 36)"
  by (simp_all add: forecast_entry_def muestra_def entrada_def campo_temperatura_def
      campo_humedad_def campo_viento_def campo_lluvia_def campo_condicion_def
      campo_condicion_id_def get_day_name_def py_round1_def round_half_even_def)

lemma get_forecast_feed_ejemplo:
  "get_forecast lib_utc (respuesta_clima feed_ejemplo) 0 0 =
     Inr (PDict [(''pronostico'', PList [entrada ''2024-01-01'' ''Lunes'' 22 50 18,
                                         entrada ''2024-01-02'' ''Martes'' 24 60 36])])"
  by (simp add: get_forecast_def make_request_respuesta_clima daily_forecasts_of_def
      feed_ejemplo_def sample_time_muestra forecast_entry_muestra se_omite_def)

theorem get_forecast_entries_witness:
  "get_forecast lib_utc (respuesta_clima feed_ejemplo) 0 0 =
     Inr (PDict [(''pronostico'', PList [entrada ''2024-01-01'' ''Lunes'' 22 50 18,
                                         entrada ''2024-01-02'' ''Martes'' 24 60 36])])
   \<and> (\<exists>data l items fs idx.
      fst (make_request lib_utc (respuesta_clima feed_ejemplo ''forecast'' (0, 0))) = Inr data
    \<and> py_getitem data ''list'' = Inr l \<and> py_iter l = Inr items
    \<and> PDict [(''pronostico'', PList [entrada ''2024-01-01'' ''Lunes'' 22 50 18,
                                     entrada ''2024-01-02'' ''Martes'' 24 60 36])]
        = PDict [(''pronostico'', PList fs)]
    \<and> length fs \<le> 5
    \<and> distinct (map (\<lambda>f. py_getitem f ''fecha'') fs)
    \<and> length idx = length fs \<and> sorted_wrt (<) idx
    \<and> (\<forall>k<length fs. \<exists>dt.
          idx ! k < length items
        \<and> sample_time lib_utc (items ! (idx ! k)) = Inr dt
        \<and> hour dt \<in> {11, 12, 13}
        \<and> forecast_entry lib_utc (items ! (idx ! k)) dt = Inr (fs ! k)
        \<and> py_getitem (fs ! k) ''fecha'' = Inr (PStr (date_str dt))
        \<and> (\<forall>j<idx ! k. \<forall>dt'. sample_time lib_utc (items ! j) = Inr dt' \<and> hour dt' \<in> {11, 12, 13}
               \<longrightarrow> date_str dt' \<noteq> date_str dt)))"
  by (rule conjI [OF get_forecast_feed_ejemplo
        get_forecast_entries [OF get_forecast_feed_ejemplo]])

section \<open>The weekly analysis\<close>

lemma leer_dia_dict:
  assumes "leer_dia L d = Inr x"
  shows "\<exists>kvs. d = PDict kvs"
  using assms by (cases d) (simp_all add: leer_dia_def leer_campo_def)

lemma patron_de_dict:
  "\<exists>p. patron_de L (PDict kvs) temp hum vnt = Inr p
       \<and> cond_valor (temperatura (condiciones p)) = temp
       \<and> cond_valor (humedad (condiciones p)) = hum
       \<and> cond_valor (viento (condiciones p)) = vnt
       \<and> patron_coherente p"
  by (simp add: patron_de_def patron_coherente_def)

lemma procesar_dias_inv:
  assumes "procesar_dias L ds ac = Inr ac'" "coherente ac"
  shows "coherente ac'
       \<and> length (patrones ac') = length (patrones ac) + length (filter (dia_leido L) ds)"
  using assms
proof (induction ds arbitrary: ac)
  case Nil
  then show ?case by simp
next
  case (Cons d ds)
  show ?case
  proof (cases "leer_dia L d")
    case (Inl e)
    with Cons.prems have "procesar_dias L ds ac = Inr ac'"
      by (simp split: if_splits)
    from Cons.IH [OF this Cons.prems(2)] Inl show ?thesis
      by (simp add: dia_leido_def)
  next
    case (Inr x)
    obtain temp hum vnt where x: "x = (temp, hum, vnt)" by (cases x)
    from leer_dia_dict [OF Inr] obtain kvs where d: "d = PDict kvs" by blast
    from patron_de_dict [of L kvs temp hum vnt] obtain p where
      p: "patron_de L d temp hum vnt = Inr p"
        "cond_valor (temperatura (condiciones p)) = temp"
        "cond_valor (humedad (condiciones p)) = hum"
        "cond_valor (viento (condiciones p)) = vnt" "patron_coherente p"
      unfolding d by blast
    let ?ac = "ac\<lparr> temperaturas := temperaturas ac @ [temp], humedades := humedades ac @ [hum],
                   vientos := vientos ac @ [vnt], patrones := patrones ac @ [p] \<rparr>"
    from Cons.prems(1) Inr p(1) have r: "procesar_dias L ds ?ac = Inr ac'"
      by (simp add: x)
    have "coherente ?ac" using Cons.prems(2) p by (simp add: coherente_def)
    from Cons.IH [OF r this] Inr show ?thesis
      by (simp add: dia_leido_def)
  qed
qed

lemma dias_procesados_inv:
  assumes "dias_procesados L net lat lon = Inr ac"
  shows "coherente ac
    \<and> (\<exists>pronostico datos_diarios dias.
          get_forecast L net lat lon = Inr pronostico
        \<and> py_get pronostico ''pronostico'' (PList []) = Inr datos_diarios
        \<and> py_iter datos_diarios = Inr dias
        \<and> length (patrones ac) = length (filter (dia_leido L) dias))"
proof -
  from assms have "\<exists>pronostico. get_forecast L net lat lon = Inr pronostico
      \<and> (\<exists>datos_diarios. py_get pronostico ''pronostico'' (PList []) = Inr datos_diarios
      \<and> (\<exists>dias. py_iter datos_diarios = Inr dias
          \<and> procesar_dias L dias
               \<lparr> temperaturas = [], humedades = [], vientos = [], patrones = [] \<rparr> = Inr ac))"
    unfolding dias_procesados_def by (simp add: and_then_Inr split: if_splits)
  then obtain pronostico datos_diarios dias where
    g: "get_forecast L net lat lon = Inr pronostico"
       "py_get pronostico ''pronostico'' (PList []) = Inr datos_diarios"
       "py_iter datos_diarios = Inr dias"
    and p: "procesar_dias L dias \<lparr> temperaturas = [], humedades = [], vientos = [], patrones = [] \<rparr>
             = Inr ac"
    by blast
  have "coherente \<lparr> temperaturas = [], humedades = [], vientos = [], patrones = [] \<rparr>"
    by (simp add: coherente_def)
  from procesar_dias_inv [OF p this] have "coherente ac"
    "length (patrones ac) = length (filter (dia_leido L) dias)" by simp_all
  with g show ?thesis by blast
qed

lemma analizar_patron_semanal_Inr:
  assumes "analizar_patron_semanal L net lat lon = Inr a"
  shows "\<exists>ac. dias_procesados L net lat lon = Inr ac \<and> patrones ac \<noteq> []
     \<and> patrones_diarios a = patrones ac
     \<and> recomendaciones a =
         (if 0.5 < calcular_tendencia (map PFloat (temperaturas ac)) then [recomendacion_riego] else [])
     \<and> alertas a =
         (if list_ex (\<lambda>h. 80 < h) (humedades ac) then [alerta_hongos] else [])
         @ (if list_ex (\<lambda>v. 30 < v) (vientos ac) then [alerta_viento] else [])
     \<and> resumen a =
         generar_resumen (temperaturas ac) (humedades ac) (vientos ac)
           (calcular_tendencia (map PFloat (temperaturas ac)))
           (calcular_tendencia (map PFloat (humedades ac)))"
proof -
  from assms obtain ac where ac: "dias_procesados L net lat lon = Inr ac"
    and ne: "patrones ac \<noteq> []"
    and a: "a = (let tendencia_temp = calcular_tendencia (map PFloat (temperaturas ac));
            tendencia_hum = calcular_tendencia (map PFloat (humedades ac));
            analisis = generar_recomendaciones
                         \<lparr> patrones_diarios = patrones ac, recomendaciones = [], alertas = [] \<rparr>
                         (temperaturas ac) (humedades ac) (vientos ac)
        in \<lparr> patrones_diarios = patrones_diarios analisis,
                 recomendaciones = recomendaciones analisis,
                 alertas = alertas analisis,
                 resumen = generar_resumen (temperaturas ac) (humedades ac) (vientos ac)
                             tendencia_temp tendencia_hum \<rparr>)"
    unfolding analizar_patron_semanal_def Let_def
    by (auto simp: and_then_Inr split: if_splits)
  have "patrones_diarios a = patrones ac"
    unfolding a by (simp add: generar_recomendaciones_def Let_def)
  moreover have "recomendaciones a =
         (if 0.5 < calcular_tendencia (map PFloat (temperaturas ac)) then [recomendacion_riego] else [])"
    unfolding a by (simp add: generar_recomendaciones_def Let_def)
  moreover have "alertas a =
         (if list_ex (\<lambda>h. 80 < h) (humedades ac) then [alerta_hongos] else [])
         @ (if list_ex (\<lambda>v. 30 < v) (vientos ac) then [alerta_viento] else [])"
    unfolding a by (simp add: generar_recomendaciones_def Let_def)
  moreover have "resumen a =
         generar_resumen (temperaturas ac) (humedades ac) (vientos ac)
           (calcular_tendencia (map PFloat (temperaturas ac)))
           (calcular_tendencia (map PFloat (humedades ac)))"
    unfolding a by (simp add: Let_def)
  ultimately show ?thesis using ac ne by blast
qed

lemma get_forecast_feed_semana:
  "get_forecast lib_utc (respuesta_clima feed_semana) 0 0 =
     Inr (PDict [(''pronostico'', PList [entrada ''2024-01-01'' ''Lunes'' 22 85 27,
                                         entrada ''2024-01-02'' ''Martes'' 24 60 18])])"
proof -
  have "forecast_entry lib_utc (muestra 1704110400 22 85 7.5)
          \<lparr> date_str = ''2024-01-01'', hour = 12, weekday = 0 \<rparr>
        = Inr (entrada ''2024-01-01'' ''Lunes'' 22 85 27)"
    "forecast_entry lib_utc (muestra 1704196800 24 60 5)
          \<lparr> date_str = ''2024-01-02'', hour = 12, weekday = Suc 0 \<rparr>
        = Inr (entrada ''2024-01-02'' ''Martes'' 24 60 18)"
    by (simp_all add: forecast_entry_def muestra_def entrada_def campo_temperatura_def
      campo_humedad_def campo_viento_def campo_lluvia_def campo_condicion_def
      campo_condicion_id_def get_day_name_def py_round1_def round_half_even_def)
  then show ?thesis
    by (simp add: get_forecast_def make_request_respuesta_clima daily_forecasts_of_def
      feed_semana_def sample_time_muestra se_omite_def)
qed

lemma dias_procesados_feed_semana:
  "dias_procesados lib_utc (respuesta_clima feed_semana) 0 0 =
     Inr \<lparr> temperaturas = [22, 24], humedades = [85, 60], vientos = [27, 18],
           patrones = [patron_lunes, patron_martes] \<rparr>"
proof -
  have l: "leer_dia lib_utc (entrada ''2024-01-01'' ''Lunes'' 22 85 27) = Inr (22, 85, 27)"
    "leer_dia lib_utc (entrada ''2024-01-02'' ''Martes'' 24 60 18) = Inr (24, 60, 18)"
    by (simp_all add: leer_dia_def leer_campo_def entrada_def)
  have p: "patron_de lib_utc (entrada ''2024-01-01'' ''Lunes'' 22 85 27) 22 85 27 = Inr patron_lunes"
    "patron_de lib_utc (entrada ''2024-01-02'' ''Martes'' 24 60 18) 24 60 18 = Inr patron_martes"
    by (simp_all add: patron_de_def entrada_def patron_lunes_def patron_martes_def
        categorizar_temperatura_def categorizar_humedad_def categorizar_viento_def
        evaluar_riesgo_cultivo_def riesgo_temperatura_def riesgo_humedad_def riesgo_viento_def
        nivel_riesgo_def)
  show ?thesis
    by (simp add: dias_procesados_def get_forecast_feed_semana l p)
qed

lemma tendencias_feed_semana:
  "calcular_tendencia [PFloat 22, PFloat 24] = 2"
  "calcular_tendencia [PFloat 85, PFloat 60] = - 25"
  by (simp_all add: calcular_tendencia_def linear_regression_coef_def upt_rec
      power2_eq_square)

lemma analizar_feed_semana:
  "analizar_patron_semanal lib_utc (respuesta_clima feed_semana) 0 0 = Inr analisis_ejemplo"
  by (simp add: analizar_patron_semanal_def dias_procesados_feed_semana tendencias_feed_semana
      generar_recomendaciones_def generar_resumen_def promedio_def py_round1_def
      round_half_even_def interpretar_tendencia_def analisis_ejemplo_def Let_def)

lemma factores_viento_fuerte:
  "''viento fuerte'' \<in> set (factores (evaluar_riesgo_cultivo temp hum vnt)) \<longleftrightarrow> 25 < vnt"
  by (simp add: evaluar_riesgo_cultivo_def riesgo_temperatura_def riesgo_humedad_def
      riesgo_viento_def)

lemma alertas_tipos:
  "alerta_tipo alerta_hongos = ''hongos''" "alerta_tipo alerta_viento = ''viento''"
  "alerta_nivel alerta_hongos = ''precauci'' @ [CHR 0xF3] @ ''n''"
  "alerta_nivel alerta_viento = ''advertencia''"
  "rec_tipo recomendacion_riego = ''riego''"
  by (simp_all add: alerta_hongos_def alerta_viento_def recomendacion_riego_def)

text \<open>
  C8. In every weekly analysis that succeeds, there is a fungal-risk alert (type
  "hongos", level "precaucion") exactly when the humidity of some processed day is
  above 80, and a strong-wind alert (type "viento", level "advertencia") exactly when
  the wind of some processed day is above 30. The two scans range over all the
  processed days and do not depend on the risk score of a day, whose wind factor has
  its own threshold: the factor "viento fuerte" is in the risk of a day exactly when
  the wind of that day is above 25.
\<close>

theorem alertas_semanales:
  assumes "analizar_patron_semanal L net lat lon = Inr a"
  shows "((\<exists>al \<in> set (alertas a). alerta_tipo al = ''hongos''
              \<and> alerta_nivel al = ''precauci'' @ [CHR 0xF3] @ ''n'')
          \<longleftrightarrow> (\<exists>p \<in> set (patrones_diarios a). 80 < cond_valor (humedad (condiciones p))))
       \<and> ((\<exists>al \<in> set (alertas a). alerta_tipo al = ''viento''
              \<and> alerta_nivel al = ''advertencia'')
          \<longleftrightarrow> (\<exists>p \<in> set (patrones_diarios a). 30 < cond_valor (viento (condiciones p))))
       \<and> set (alertas a) \<subseteq> {alerta_hongos, alerta_viento}
       \<and> (\<forall>p \<in> set (patrones_diarios a).
             ''viento fuerte'' \<in> set (factores (riesgo_cultivo p))
             \<longleftrightarrow> 25 < cond_valor (viento (condiciones p)))"
proof -
  from analizar_patron_semanal_Inr [OF assms] obtain ac where
    ac: "dias_procesados L net lat lon = Inr ac" and pd: "patrones_diarios a = patrones ac"
    and al: "alertas a =
         (if list_ex (\<lambda>h. 80 < h) (humedades ac) then [alerta_hongos] else [])
         @ (if list_ex (\<lambda>v. 30 < v) (vientos ac) then [alerta_viento] else [])"
    by blast
  from dias_procesados_inv [OF ac] have co: "coherente ac" by simp
  have h: "list_ex (\<lambda>h. 80 < h) (humedades ac)
      \<longleftrightarrow> (\<exists>p \<in> set (patrones_diarios a). 80 < cond_valor (humedad (condiciones p)))"
    using co by (simp add: coherente_def pd list_ex_iff)
  have v: "list_ex (\<lambda>v. 30 < v) (vientos ac)
      \<longleftrightarrow> (\<exists>p \<in> set (patrones_diarios a). 30 < cond_valor (viento (condiciones p)))"
    using co by (simp add: coherente_def pd list_ex_iff)
  have f: "''viento fuerte'' \<in> set (factores (riesgo_cultivo p))
             \<longleftrightarrow> 25 < cond_valor (viento (condiciones p))"
    if "p \<in> set (patrones_diarios a)" for p
  proof -
    from that co have "patron_coherente p" by (simp add: coherente_def pd list_all_iff)
    then show ?thesis by (simp add: patron_coherente_def factores_viento_fuerte)
  qed
  have 1: "(\<exists>al \<in> set (alertas a). alerta_tipo al = ''hongos''
              \<and> alerta_nivel al = ''precauci'' @ [CHR 0xF3] @ ''n'')
          \<longleftrightarrow> list_ex (\<lambda>h. 80 < h) (humedades ac)"
    unfolding al by (auto simp: alertas_tipos)
  have 2: "(\<exists>al \<in> set (alertas a). alerta_tipo al = ''viento''
              \<and> alerta_nivel al = ''advertencia'')
          \<longleftrightarrow> list_ex (\<lambda>v. 30 < v) (vientos ac)"
    unfolding al by (auto simp: alertas_tipos)
  have 3: "set (alertas a) \<subseteq> {alerta_hongos, alerta_viento}"
    unfolding al by auto
  from 1 2 3 h v f show ?thesis by blast
qed

theorem alertas_semanales_witness:
  "analizar_patron_semanal lib_utc (respuesta_clima feed_semana) 0 0 = Inr analisis_ejemplo
   \<and> (\<exists>al \<in> set (alertas analisis_ejemplo). alerta_tipo al = ''hongos''
          \<and> alerta_nivel al = ''precauci'' @ [CHR 0xF3] @ ''n'')
   \<and> (\<exists>p \<in> set (patrones_diarios analisis_ejemplo). 80 < cond_valor (humedad (condiciones p)))
   \<and> \<not> (\<exists>al \<in> set (alertas analisis_ejemplo). alerta_tipo al = ''viento''
          \<and> alerta_nivel al = ''advertencia'')
   \<and> \<not> (\<exists>p \<in> set (patrones_diarios analisis_ejemplo). 30 < cond_valor (viento (condiciones p)))
   \<and> ''viento fuerte'' \<in> set (factores (riesgo_cultivo patron_lunes))
   \<and> 25 < cond_valor (viento (condiciones patron_lunes))"
proof -
  note t = alertas_semanales [OF analizar_feed_semana]
  have p: "\<exists>p \<in> set (patrones_diarios analisis_ejemplo). 80 < cond_valor (humedad (condiciones p))"
    by (simp add: analisis_ejemplo_def patron_lunes_def)
  have q: "\<not> (\<exists>p \<in> set (patrones_diarios analisis_ejemplo). 30 < cond_valor (viento (condiciones p)))"
    by (simp add: analisis_ejemplo_def patron_lunes_def patron_martes_def)
  have m: "patron_lunes \<in> set (patrones_diarios analisis_ejemplo)"
    by (simp add: analisis_ejemplo_def)
  have w: "25 < cond_valor (viento (condiciones patron_lunes))"
    by (simp add: patron_lunes_def)
  from t p q m w analizar_feed_semana show ?thesis by blast
qed

text \<open>
  C9. A weekly analysis that succeeds has at most one alert of type "hongos" and at
  most one of type "viento", and no alert of another kind, so at most 2 alerts; and it
  has at most one recommendation, the one of type "riego"; however many days are above
  the thresholds.
\<close>

theorem alertas_a_lo_sumo_una_por_tipo:
  assumes "analizar_patron_semanal L net lat lon = Inr a"
  shows "length (filter (\<lambda>al. alerta_tipo al = ''hongos'') (alertas a)) \<le> 1
       \<and> length (filter (\<lambda>al. alerta_tipo al = ''viento'') (alertas a)) \<le> 1
       \<and> length (alertas a) \<le> 2
       \<and> set (alertas a) \<subseteq> {alerta_hongos, alerta_viento}
       \<and> length (filter (\<lambda>r. rec_tipo r = ''riego'') (recomendaciones a)) \<le> 1
       \<and> length (recomendaciones a) \<le> 1"
proof -
  from analizar_patron_semanal_Inr [OF assms] obtain ac where
    ac: "dias_procesados L net lat lon = Inr ac"
    and re: "recomendaciones a =
         (if 0.5 < calcular_tendencia (map PFloat (temperaturas ac)) then [recomendacion_riego] else [])"
    and al: "alertas a =
         (if list_ex (\<lambda>h. 80 < h) (humedades ac) then [alerta_hongos] else [])
         @ (if list_ex (\<lambda>v. 30 < v) (vientos ac) then [alerta_viento] else [])"
    by blast
  show ?thesis unfolding al re by (simp add: alertas_tipos)
qed

theorem alertas_a_lo_sumo_una_por_tipo_witness:
  "analizar_patron_semanal lib_utc (respuesta_clima feed_semana) 0 0 = Inr analisis_ejemplo
   \<and> length (filter (\<lambda>al. alerta_tipo al = ''hongos'') (alertas analisis_ejemplo)) \<le> 1
   \<and> length (filter (\<lambda>al. alerta_tipo al = ''viento'') (alertas analisis_ejemplo)) \<le> 1
   \<and> length (alertas analisis_ejemplo) \<le> 2
   \<and> set (alertas analisis_ejemplo) \<subseteq> {alerta_hongos, alerta_viento}
   \<and> length (filter (\<lambda>r. rec_tipo r = ''riego'') (recomendaciones analisis_ejemplo)) \<le> 1
   \<and> length (recomendaciones analisis_ejemplo) \<le> 1"
  by (rule conjI [OF analizar_feed_semana
        alertas_a_lo_sumo_una_por_tipo [OF analizar_feed_semana]])

text \<open>
  C10. In a weekly analysis that succeeds, each day that is read adds one element to
  each of the series of temperatures, humidities and winds and one pattern record:
  the three series and the list of patterns have the same length, the number of days
  read, the series hold the values of the pattern records, and each average of the
  summary is the sum of its series over the number of processed days, rounded to one
  decimal.
\<close>

theorem series_y_patrones:
  assumes "analizar_patron_semanal L net lat lon = Inr a"
  shows "\<exists>ac pronostico datos_diarios dias.
       dias_procesados L net lat lon = Inr ac
     \<and> get_forecast L net lat lon = Inr pronostico
     \<and> py_get pronostico ''pronostico'' (PList []) = Inr datos_diarios
     \<and> py_iter datos_diarios = Inr dias
     \<and> patrones_diarios a = patrones ac
     \<and> length (patrones ac) = length (filter (dia_leido L) dias)
     \<and> length (temperaturas ac) = length (patrones ac)
     \<and> length (humedades ac) = length (patrones ac)
     \<and> length (vientos ac) = length (patrones ac)
     \<and> temperaturas ac = map (\<lambda>p. cond_valor (temperatura (condiciones p))) (patrones ac)
     \<and> humedades ac = map (\<lambda>p. cond_valor (humedad (condiciones p))) (patrones ac)
     \<and> vientos ac = map (\<lambda>p. cond_valor (viento (condiciones p))) (patrones ac)
     \<and> temperatura_promedio (resumen a) =
         py_round1 (sum_list (temperaturas ac) / real (length (patrones ac)))
     \<and> humedad_promedio (resumen a) =
         py_round1 (sum_list (humedades ac) / real (length (patrones ac)))
     \<and> viento_promedio (resumen a) =
         py_round1 (sum_list (vientos ac) / real (length (patrones ac)))"
proof -
  from analizar_patron_semanal_Inr [OF assms] obtain ac where
    ac: "dias_procesados L net lat lon = Inr ac" and ne: "patrones ac \<noteq> []"
    and pd: "patrones_diarios a = patrones ac"
    and re: "resumen a =
         generar_resumen (temperaturas ac) (humedades ac) (vientos ac)
           (calcular_tendencia (map PFloat (temperaturas ac)))
           (calcular_tendencia (map PFloat (humedades ac)))"
    by blast
  from dias_procesados_inv [OF ac] obtain pronostico datos_diarios dias where
    co: "coherente ac"
    and g: "get_forecast L net lat lon = Inr pronostico"
       "py_get pronostico ''pronostico'' (PList []) = Inr datos_diarios"
       "py_iter datos_diarios = Inr dias"
       "length (patrones ac) = length (filter (dia_leido L) dias)"
    by blast
  from co have s: "temperaturas ac = map (\<lambda>p. cond_valor (temperatura (condiciones p))) (patrones ac)"
    "humedades ac = map (\<lambda>p. cond_valor (humedad (condiciones p))) (patrones ac)"
    "vientos ac = map (\<lambda>p. cond_valor (viento (condiciones p))) (patrones ac)"
    by (simp_all add: coherente_def)
  then have len: "length (temperaturas ac) = length (patrones ac)"
    "length (humedades ac) = length (patrones ac)"
    "length (vientos ac) = length (patrones ac)"
    by (metis length_map)+
  with ne have nn: "temperaturas ac \<noteq> []" "humedades ac \<noteq> []" "vientos ac \<noteq> []"
    by auto
  have pr: "temperatura_promedio (resumen a) =
         py_round1 (sum_list (temperaturas ac) / real (length (patrones ac)))"
     "humedad_promedio (resumen a) =
         py_round1 (sum_list (humedades ac) / real (length (patrones ac)))"
     "viento_promedio (resumen a) =
         py_round1 (sum_list (vientos ac) / real (length (patrones ac)))"
    unfolding re generar_resumen_def promedio_def using nn len by simp_all
  from ac g pd s len pr show ?thesis by blast
qed

theorem series_y_patrones_witness:
  "analizar_patron_semanal lib_utc (respuesta_clima feed_semana) 0 0 = Inr analisis_ejemplo
   \<and> (\<exists>ac pronostico datos_diarios dias.
       dias_procesados lib_utc (respuesta_clima feed_semana) 0 0 = Inr ac
     \<and> get_forecast lib_utc (respuesta_clima feed_semana) 0 0 = Inr pronostico
     \<and> py_get pronostico ''pronostico'' (PList []) = Inr datos_diarios
     \<and> py_iter datos_diarios = Inr dias
     \<and> patrones_diarios analisis_ejemplo = patrones ac
     \<and> length (patrones ac) = length (filter (dia_leido lib_utc) dias)
     \<and> length (temperaturas ac) = length (patrones ac)
     \<and> length (humedades ac) = length (patrones ac)
     \<and> length (vientos ac) = length (patrones ac)
     \<and> temperaturas ac = map (\<lambda>p. cond_valor (temperatura (condiciones p))) (patrones ac)
     \<and> humedades ac = map (\<lambda>p. cond_valor (humedad (condiciones p))) (patrones ac)
     \<and> vientos ac = map (\<lambda>p. cond_valor (viento (condiciones p))) (patrones ac)
     \<and> temperatura_promedio (resumen analisis_ejemplo) =
         py_round1 (sum_list (temperaturas ac) / real (length (patrones ac)))
     \<and> humedad_promedio (resumen analisis_ejemplo) =
         py_round1 (sum_list (humedades ac) / real (length (patrones ac)))
     \<and> viento_promedio (resumen analisis_ejemplo) =
         py_round1 (sum_list (vientos ac) / real (length (patrones ac))))"
  by (rule conjI [OF analizar_feed_semana series_y_patrones [OF analizar_feed_semana]])

end
